theory Spec2Isabelle
  imports Main
begin

section \<open>Python values, exceptions and effects\<close>

text \<open>
  The client of \<^verbatim>\<open>shaarli_client.py\<close> drives a browser through Selenium. Every call
  into Selenium may raise and may change the browser, so an operation is a function from
  the state of the world to a result and the new state. The result is a sum: \<open>Inl\<close>
  is a raised exception, \<open>Inr\<close> a returned value. Only exceptions below Python's
  \<^verbatim>\<open>Exception\<close> are modelled (what \<^verbatim>\<open>except Exception\<close> catches); logging
  is left out, the Selenium calls made only to build a log line are kept.
\<close>

datatype exn =
    TimeoutException
  | NoSuchElementException
  | ImportError
  | AttributeError
  | RuntimeError string
  | WebDriverException string

type_synonym ('a, 'd) act = "'d \<Rightarrow> (exn + 'a) \<times> 'd"

definition ret :: "'a \<Rightarrow> ('a, 'd) act" where
  "ret x = (\<lambda>d. (Inr x, d))"

definition throw :: "exn \<Rightarrow> ('a, 'd) act" where
  "throw e = (\<lambda>d. (Inl e, d))"

definition bnd :: "('a, 'd) act \<Rightarrow> ('a \<Rightarrow> ('b, 'd) act) \<Rightarrow> ('b, 'd) act" where
  "bnd m f = (\<lambda>d. case m d of (Inl e, d') \<Rightarrow> (Inl e, d') | (Inr x, d') \<Rightarrow> f x d')"

text \<open>\<^verbatim>\<open>try: m  except Exception as e: h e\<close> (also the bare \<^verbatim>\<open>except:\<close>).\<close>

definition try_except :: "('a, 'd) act \<Rightarrow> (exn \<Rightarrow> ('a, 'd) act) \<Rightarrow> ('a, 'd) act" where
  "try_except m h = (\<lambda>d. case m d of (Inl e, d') \<Rightarrow> h e d' | (Inr x, d') \<Rightarrow> (Inr x, d'))"

text \<open>\<^verbatim>\<open>try: m  except TimeoutException: h\<close>: every other exception goes on.\<close>

definition try_except_timeout :: "('a, 'd) act \<Rightarrow> ('a, 'd) act \<Rightarrow> ('a, 'd) act" where
  "try_except_timeout m h =
     (\<lambda>d. case m d of
            (Inl e, d') \<Rightarrow> (if e = TimeoutException then h d' else (Inl e, d'))
          | (Inr x, d') \<Rightarrow> (Inr x, d'))"

subsection \<open>Strings\<close>

text \<open>\<^verbatim>\<open>hay.startswith(needle)\<close> and \<^verbatim>\<open>needle in hay\<close>.\<close>

fun startswith :: "string \<Rightarrow> string \<Rightarrow> bool" where
  "startswith hay [] = True"
| "startswith [] (n # ns) = False"
| "startswith (c # cs) (n # ns) = (c = n \<and> startswith cs ns)"

fun py_in :: "string \<Rightarrow> string \<Rightarrow> bool" where
  "py_in needle [] = (needle = [])"
| "py_in needle (c # cs) = (startswith (c # cs) needle \<or> py_in needle cs)"

text \<open>
  \<^verbatim>\<open>s.strip()\<close> and \<^verbatim>\<open>s.rstrip('/')\<close>. A \<open>char\<close> stands for a code point below
  256. Of these, \<^verbatim>\<open>str.strip\<close> removes the ones \<^verbatim>\<open>str.isspace\<close> accepts: 9 to 13,
  28 to 31, the blank (32), the next-line control (133, U+0085) and the no-break space
  (160, U+00A0). The whitespace beyond code point 255 has no \<open>char\<close>.
\<close>

definition is_space :: "char \<Rightarrow> bool" where
  "is_space c =
     (let n = of_char c :: nat
      in (9 \<le> n \<and> n \<le> 13) \<or> (28 \<le> n \<and> n \<le> 32) \<or> n = 133 \<or> n = 160)"

definition strip :: "string \<Rightarrow> string" where
  "strip s = rev (dropWhile is_space (rev (dropWhile is_space s)))"

definition rstrip_slash :: "string \<Rightarrow> string" where
  "rstrip_slash s = rev (dropWhile (\<lambda>c. c = CHR ''/'') (rev s))"

text \<open>\<^verbatim>\<open>" ".join(xs)\<close>.\<close>

fun join_space :: "string list \<Rightarrow> string" where
  "join_space [] = []"
| "join_space [x] = x"
| "join_space (x # y # ys) = x @ '' '' @ join_space (y # ys)"

text \<open>\<^verbatim>\<open>xs[:k]\<close>: a negative \<open>k\<close> counts from the end.\<close>

definition slice_to :: "int \<Rightarrow> 'a list \<Rightarrow> 'a list" where
  "slice_to k xs = (if 0 \<le> k then take (nat k) xs else take (nat (int (length xs) + k)) xs)"

text \<open>Truthiness of a value that is \<^verbatim>\<open>None\<close> or a string.\<close>

fun truthy :: "string option \<Rightarrow> bool" where
  "truthy None = False"
| "truthy (Some s) = (s \<noteq> [])"

subsection \<open>Loops\<close>

text \<open>
  \<^verbatim>\<open>for x in xs: ... break\<close>, where the body either finds a value and breaks
  (\<open>Some\<close>) or goes on to the next \<open>x\<close> (\<open>None\<close>); an exception that leaves the
  body ends the loop.
\<close>

fun for_break :: "('x \<Rightarrow> ('a option, 'd) act) \<Rightarrow> 'x list \<Rightarrow> ('a option, 'd) act" where
  "for_break body [] d = (Inr None, d)"
| "for_break body (x # xs) d =
     (case body x d of
        (Inl e, d') \<Rightarrow> (Inl e, d')
      | (Inr (Some a), d') \<Rightarrow> (Inr (Some a), d')
      | (Inr None, d') \<Rightarrow> for_break body xs d')"

text \<open>\<^verbatim>\<open>[f(x) for x in xs]\<close>, and a \<^verbatim>\<open>for\<close> loop run for its effects.\<close>

fun map_m :: "('x \<Rightarrow> ('a, 'd) act) \<Rightarrow> 'x list \<Rightarrow> ('a list, 'd) act" where
  "map_m f [] d = (Inr [], d)"
| "map_m f (x # xs) d =
     (case f x d of
        (Inl e, d') \<Rightarrow> (Inl e, d')
      | (Inr a, d') \<Rightarrow>
          (case map_m f xs d' of
             (Inl e, d'') \<Rightarrow> (Inl e, d'')
           | (Inr as, d'') \<Rightarrow> (Inr (a # as), d'')))"

definition for_each :: "('x \<Rightarrow> (unit, 'd) act) \<Rightarrow> 'x list \<Rightarrow> (unit, 'd) act" where
  "for_each f xs = bnd (map_m f xs) (\<lambda>_. ret ())"

text \<open>\<^verbatim>\<open>for x in xs: if p(x): out.append(x)\<close>\<close>

fun filter_m :: "('x \<Rightarrow> (bool, 'd) act) \<Rightarrow> 'x list \<Rightarrow> ('x list, 'd) act" where
  "filter_m p [] d = (Inr [], d)"
| "filter_m p (x # xs) d =
     (case p x d of
        (Inl e, d') \<Rightarrow> (Inl e, d')
      | (Inr b, d') \<Rightarrow>
          (case filter_m p xs d' of
             (Inl e, d'') \<Rightarrow> (Inl e, d'')
           | (Inr ys, d'') \<Rightarrow> (Inr (if b then x # ys else ys), d'')))"

text \<open>\<^verbatim>\<open>elements[0]\<close> under \<^verbatim>\<open>if elements:\<close>.\<close>

fun first_of :: "'a list \<Rightarrow> 'a option" where
  "first_of [] = None"
| "first_of (x # xs) = Some x"

section \<open>The Selenium interface\<close>

text \<open>
  Selenium is not part of the repository: its operations are the fields of a record, over
  any type \<open>'d\<close> of world states (the browser, the site, the clock). A web element and
  a driver are handles. \<open>wait_until\<close> is \<^verbatim>\<open>WebDriverWait(driver, timeout).until(cond)\<close>,
  \<open>time_sleep\<close> is \<^verbatim>\<open>time.sleep\<close>, \<open>requests_get\<close> is \<^verbatim>\<open>import requests\<close> followed
  by \<^verbatim>\<open>requests.get(url, timeout=5).status_code\<close>.
\<close>

type_synonym web_element = nat
type_synonym driver_ref = nat

datatype By = NAME | ID | CSS_SELECTOR | XPATH | TAG_NAME | PARTIAL_LINK_TEXT

datatype js_arg = ArgElement web_element | ArgString string

datatype js_value = JsNull | JsBool bool | JsString string

record 'd selenium =
  Firefox :: "string list \<Rightarrow> (driver_ref, 'd) act"
  set_window_size :: "driver_ref \<Rightarrow> nat \<Rightarrow> nat \<Rightarrow> (unit, 'd) act"
  quit :: "driver_ref \<Rightarrow> (unit, 'd) act"
  drv_get :: "driver_ref \<Rightarrow> string \<Rightarrow> (unit, 'd) act"
  current_url :: "driver_ref \<Rightarrow> (string, 'd) act"
  page_source :: "driver_ref \<Rightarrow> (string, 'd) act"
  execute_script :: "driver_ref \<Rightarrow> string \<Rightarrow> js_arg list \<Rightarrow> (js_value, 'd) act"
  find_elements :: "driver_ref \<Rightarrow> By \<Rightarrow> string \<Rightarrow> (web_element list, 'd) act"
  find_element :: "driver_ref \<Rightarrow> By \<Rightarrow> string \<Rightarrow> (web_element, 'd) act"
  switch_to_frame :: "driver_ref \<Rightarrow> web_element \<Rightarrow> (unit, 'd) act"
  switch_to_default_content :: "driver_ref \<Rightarrow> (unit, 'd) act"
  wait_until :: "driver_ref option \<Rightarrow> int \<Rightarrow> (bool, 'd) act \<Rightarrow> (unit, 'd) act"
  el_find_elements :: "web_element \<Rightarrow> By \<Rightarrow> string \<Rightarrow> (web_element list, 'd) act"
  el_find_element :: "web_element \<Rightarrow> By \<Rightarrow> string \<Rightarrow> (web_element, 'd) act"
  get_attribute :: "web_element \<Rightarrow> string \<Rightarrow> (string option, 'd) act"
  tag_name :: "web_element \<Rightarrow> (string, 'd) act"
  el_text :: "web_element \<Rightarrow> (string, 'd) act"
  is_selected :: "web_element \<Rightarrow> (bool, 'd) act"
  click :: "web_element \<Rightarrow> (unit, 'd) act"
  clear :: "web_element \<Rightarrow> (unit, 'd) act"
  send_keys :: "web_element \<Rightarrow> string \<Rightarrow> (unit, 'd) act"
  time_sleep :: "nat \<Rightarrow> 'd \<Rightarrow> 'd"
  requests_get :: "string \<Rightarrow> nat \<Rightarrow> (int, 'd) act"

text \<open>
  \<^verbatim>\<open>self.driver.op(...)\<close>: an attribute of \<^verbatim>\<open>None\<close> raises \<^verbatim>\<open>AttributeError\<close>.
\<close>

definition on_driver :: "driver_ref option \<Rightarrow> (driver_ref \<Rightarrow> ('a, 'd) act) \<Rightarrow> ('a, 'd) act" where
  "on_driver drv op = (case drv of None \<Rightarrow> throw AttributeError | Some h \<Rightarrow> op h)"

definition sleep :: "'d selenium \<Rightarrow> nat \<Rightarrow> (unit, 'd) act" where
  "sleep S n = (\<lambda>d. (Inr (), time_sleep S n d))"

section \<open>The client\<close>

record client =
  base_url :: string
  timeout :: int
  driver :: "driver_ref option"
  is_logged_in :: bool
  firefox_options :: "string list"

text \<open>\<^verbatim>\<open>ShaarliClient.__init__\<close>\<close>

definition init :: "string \<Rightarrow> bool \<Rightarrow> int \<Rightarrow> client" where
  "init url headless tmo =
     \<lparr> base_url = rstrip_slash url,
       timeout = tmo,
       driver = None,
       is_logged_in = False,
       firefox_options =
         (if headless then [''--headless''] else []) @
         [''--no-sandbox'', ''--disable-dev-shm-usage'', ''--width=1920'', ''--height=1080''] \<rparr>"

subsection \<open>\<^verbatim>\<open>try_interact_with_element\<close>\<close>

text \<open>
  The body that methods 1 and 2 share (lines 145 to 151 and 160 to 166): \<open>True\<close> when
  a \<^verbatim>\<open>return True\<close> was reached, \<open>False\<close> when neither branch applies and control
  leaves the \<^verbatim>\<open>try\<close> block without returning.
\<close>

definition native_action :: "'d selenium \<Rightarrow> web_element \<Rightarrow> string \<Rightarrow> string option \<Rightarrow> (bool, 'd) act" where
  "native_action S element action text =
     (if action = ''click'' then bnd (click S element) (\<lambda>_. ret True)
      else (case text of
              Some t \<Rightarrow>
                if action = ''send_keys'' \<and> t \<noteq> []
                then bnd (clear S element) (\<lambda>_. bnd (send_keys S element t) (\<lambda>_. ret True))
                else ret False
            | None \<Rightarrow> ret False))"

definition method1 :: "'d selenium \<Rightarrow> web_element \<Rightarrow> string \<Rightarrow> string option \<Rightarrow> (bool, 'd) act" where
  "method1 S element action text = native_action S element action text"

text \<open>Line 157.\<close>

definition scroll_into_view :: "'d selenium \<Rightarrow> driver_ref option \<Rightarrow> web_element \<Rightarrow> (js_value, 'd) act" where
  "scroll_into_view S drv element =
     on_driver drv (\<lambda>h. execute_script S h
       ''arguments[0].scrollIntoView({behavior: 'smooth', block: 'center'});''
       [ArgElement element])"

definition method2 ::
  "'d selenium \<Rightarrow> driver_ref option \<Rightarrow> web_element \<Rightarrow> string \<Rightarrow> string option \<Rightarrow> (bool, 'd) act" where
  "method2 S drv element action text =
     bnd (scroll_into_view S drv element) (\<lambda>_.
     bnd (sleep S 1) (\<lambda>_.
     native_action S element action text))"

definition method3 ::
  "'d selenium \<Rightarrow> driver_ref option \<Rightarrow> web_element \<Rightarrow> string \<Rightarrow> string option \<Rightarrow> (bool, 'd) act" where
  "method3 S drv element action text =
     (if action = ''click''
      then bnd (on_driver drv (\<lambda>h. execute_script S h ''arguments[0].click();'' [ArgElement element]))
               (\<lambda>_. ret True)
      else (case text of
              Some t \<Rightarrow>
                if action = ''send_keys'' \<and> t \<noteq> []
                then
                  bnd (on_driver drv (\<lambda>h. execute_script S h
                         (''arguments[0].value = '' @ [CHR 0x27, CHR 0x27] @ '';'')
                         [ArgElement element])) (\<lambda>_.
                  bnd (on_driver drv (\<lambda>h. execute_script S h ''arguments[0].value = arguments[1];''
                         [ArgElement element, ArgString t])) (\<lambda>_.
                  bnd (on_driver drv (\<lambda>h. execute_script S h
                         ''arguments[0].dispatchEvent(new Event('input', {bubbles: true}));''
                         [ArgElement element])) (\<lambda>_.
                  bnd (on_driver drv (\<lambda>h. execute_script S h
                         ''arguments[0].dispatchEvent(new Event('change', {bubbles: true}));''
                         [ArgElement element])) (\<lambda>_.
                  ret True))))
                else ret False
            | None \<Rightarrow> ret False))"

definition try_interact_with_element ::
  "'d selenium \<Rightarrow> driver_ref option \<Rightarrow> web_element option \<Rightarrow> string \<Rightarrow> string option \<Rightarrow> (bool, 'd) act" where
  "try_interact_with_element S drv element action text =
     (case element of
        None \<Rightarrow> ret False
      | Some el \<Rightarrow>
          bnd (try_except (method1 S el action text) (\<lambda>e. ret False)) (\<lambda>r1.
          if r1 then ret True else
          bnd (try_except (method2 S drv el action text) (\<lambda>e. ret False)) (\<lambda>r2.
          if r2 then ret True else
          bnd (try_except (method3 S drv el action text) (\<lambda>e. ret False)) (\<lambda>r3.
          if r3 then ret True else
          ret False))))"

subsection \<open>The page helpers\<close>

fun js_truthy :: "js_value \<Rightarrow> bool" where
  "js_truthy JsNull = False"
| "js_truthy (JsBool b) = b"
| "js_truthy (JsString s) = (s \<noteq> [])"

definition wait_for_page_ready :: "'d selenium \<Rightarrow> driver_ref option \<Rightarrow> int \<Rightarrow> (unit, 'd) act" where
  "wait_for_page_ready S drv tmo =
     try_except
       (bnd (wait_until S drv tmo
               (bnd (on_driver drv (\<lambda>h. execute_script S h ''return document.readyState'' []))
                    (\<lambda>v. ret (v = JsString ''complete'')))) (\<lambda>_.
        bnd (sleep S 1) (\<lambda>_.
        try_except
          (wait_until S drv 2
             (bnd (on_driver drv (\<lambda>h. execute_script S h
                     ''return typeof jQuery === 'undefined' || jQuery.active === 0'' []))
                  (\<lambda>v. ret (js_truthy v))))
          (\<lambda>e. ret ()))))
       (\<lambda>e. ret ())"

definition check_for_iframes :: "'d selenium \<Rightarrow> driver_ref option \<Rightarrow> (web_element list, 'd) act" where
  "check_for_iframes S drv =
     try_except
       (bnd (on_driver drv (\<lambda>h. find_elements S h TAG_NAME ''iframe'')) (\<lambda>iframes.
        if iframes \<noteq> []
        then bnd (for_each (\<lambda>iframe.
                    bnd (get_attribute S iframe ''src'') (\<lambda>_.
                    bnd (get_attribute S iframe ''name'') (\<lambda>_. ret ()))) iframes)
                 (\<lambda>_. ret iframes)
        else ret []))
       (\<lambda>e. ret [])"

definition debug_page_elements :: "'d selenium \<Rightarrow> driver_ref option \<Rightarrow> (unit, 'd) act" where
  "debug_page_elements S drv =
     try_except
       (bnd (on_driver drv (\<lambda>h. find_elements S h TAG_NAME ''input'')) (\<lambda>inputs.
        bnd (for_each (\<lambda>inp.
               try_except
                 (bnd (get_attribute S inp ''name'') (\<lambda>_.
                  bnd (get_attribute S inp ''type'') (\<lambda>_.
                  bnd (get_attribute S inp ''id'') (\<lambda>_.
                  bnd (get_attribute S inp ''placeholder'') (\<lambda>_. ret ())))))
                 (\<lambda>e. ret ())) inputs) (\<lambda>_.
        bnd (on_driver drv (\<lambda>h. find_elements S h TAG_NAME ''form'')) (\<lambda>forms.
        bnd (on_driver drv (\<lambda>h. page_source S h)) (\<lambda>page_source. ret ())))))
       (\<lambda>e. ret ())"

subsection \<open>Resolving an element from a list of selectors\<close>

text \<open>
  The loop that \<^verbatim>\<open>login\<close> and \<^verbatim>\<open>add_url\<close> repeat for every field (lines 281, 332, 370,
  416, 526, 561, 604 and 715): the selectors in order, the first element of the first
  non-empty answer, a selector whose query raises counted as one without a match.
\<close>

definition first_match ::
  "'d selenium \<Rightarrow> driver_ref option \<Rightarrow> (By \<times> string) list \<Rightarrow> (web_element option, 'd) act" where
  "first_match S drv selectors =
     for_break (\<lambda>(selector_type, selector_value).
       try_except
         (bnd (on_driver drv (\<lambda>h. find_elements S h selector_type selector_value))
              (\<lambda>elements. ret (first_of elements)))
         (\<lambda>e. ret None)) selectors"

subsection \<open>\<^verbatim>\<open>login\<close>\<close>

definition username_selectors :: "(By \<times> string) list" where
  "username_selectors =
     [(NAME, ''login''), (NAME, ''username''), (NAME, ''user''),
      (ID, ''login''), (ID, ''username''), (ID, ''user''),
      (CSS_SELECTOR, ''input[name='login']''),
      (CSS_SELECTOR, ''input[name='username']''),
      (CSS_SELECTOR, ''input[type='text']''),
      (CSS_SELECTOR, ''input[type='email']''),
      (XPATH, ''//input[@name='login']''),
      (XPATH, ''//input[@name='username']''),
      (XPATH, ''//input[@type='text']''),
      (XPATH, ''//input[contains(@placeholder, 'user')]''),
      (XPATH, ''//input[contains(@placeholder, 'login')]''),
      (XPATH, ''//input[contains(@class, 'user')]''),
      (XPATH, ''//input[contains(@class, 'login')]'')]"

definition password_selectors :: "(By \<times> string) list" where
  "password_selectors =
     [(NAME, ''password''), (ID, ''password''),
      (CSS_SELECTOR, ''input[name='password']''),
      (CSS_SELECTOR, ''input[type='password']''),
      (XPATH, ''//input[@name='password']''),
      (XPATH, ''//input[@type='password']'')]"

definition submit_selectors :: "(By \<times> string) list" where
  "submit_selectors =
     [(CSS_SELECTOR, ''input[type='submit']''),
      (CSS_SELECTOR, ''button[type='submit']''),
      (CSS_SELECTOR, ''input[value*='Login']''),
      (CSS_SELECTOR, ''input[value*='login']''),
      (CSS_SELECTOR, ''input[value*='Log in']''),
      (CSS_SELECTOR, ''button''),
      (XPATH, ''//input[@type='submit']''),
      (XPATH, ''//button[@type='submit']''),
      (XPATH, ''//input[contains(@value, 'Login')]''),
      (XPATH, ''//button[contains(text(), 'Login')]'')]"

text \<open>Approach 2 (lines 293 to 304): the first text input of the first form that has one.\<close>

definition first_text_input_in_form :: "'d selenium \<Rightarrow> driver_ref option \<Rightarrow> (web_element option, 'd) act" where
  "first_text_input_in_form S drv =
     try_except
       (bnd (on_driver drv (\<lambda>h. find_elements S h TAG_NAME ''form'')) (\<lambda>forms.
        for_break (\<lambda>form.
          bnd (el_find_elements S form CSS_SELECTOR ''input[type='text'], input:not([type])'')
              (\<lambda>text_inputs. ret (first_of text_inputs))) forms))
       (\<lambda>e. ret None)"

text \<open>Approach 3 (lines 307 to 318): the first input that is no password, submit, button or hidden one.\<close>

definition first_non_password_input :: "'d selenium \<Rightarrow> driver_ref option \<Rightarrow> (web_element option, 'd) act" where
  "first_non_password_input S drv =
     try_except
       (bnd (on_driver drv (\<lambda>h. find_elements S h TAG_NAME ''input'')) (\<lambda>all_inputs.
        for_break (\<lambda>inp.
          bnd (get_attribute S inp ''type'') (\<lambda>input_type.
          ret (if input_type \<notin> {Some ''password'', Some ''submit'', Some ''button'', Some ''hidden''}
               then Some inp else None))) all_inputs))
       (\<lambda>e. ret None)"

text \<open>
  The search in the iframes (lines 326 to 348), first the body of the loop for one
  iframe, then the loop. A hit leaves the loop by the
  \<^verbatim>\<open>break\<close> of line 343, before the \<^verbatim>\<open>switch_to.default_content()\<close> of line 345;
  the handler of line 346 switches back too, and what it raises leaves the loop.
\<close>

definition search_iframe ::
  "'d selenium \<Rightarrow> driver_ref option \<Rightarrow> web_element \<Rightarrow> (web_element option, 'd) act" where
  "search_iframe S drv iframe =
     try_except
       (bnd (on_driver drv (\<lambda>h. switch_to_frame S h iframe)) (\<lambda>_.
        bnd (debug_page_elements S drv) (\<lambda>_.
        bnd (first_match S drv (take 5 username_selectors)) (\<lambda>username_field.
        case username_field of
          Some el \<Rightarrow> ret (Some el)
        | None \<Rightarrow> bnd (on_driver drv (\<lambda>h. switch_to_default_content S h)) (\<lambda>_. ret None)))))
       (\<lambda>e. bnd (on_driver drv (\<lambda>h. switch_to_default_content S h)) (\<lambda>_. ret None))"

definition search_iframes ::
  "'d selenium \<Rightarrow> driver_ref option \<Rightarrow> web_element list \<Rightarrow> (web_element option, 'd) act" where
  "search_iframes S drv iframes = for_break (search_iframe S drv) iframes"

text \<open>Lines 257 to 349: the username field, or \<open>None\<close> when line 351 returns \<open>False\<close>.\<close>

definition find_username_field ::
  "'d selenium \<Rightarrow> driver_ref option \<Rightarrow> web_element list \<Rightarrow> (web_element option, 'd) act" where
  "find_username_field S drv iframes =
     bnd (first_match S drv username_selectors) (\<lambda>f1.
     bnd (if f1 = None then first_text_input_in_form S drv else ret f1) (\<lambda>f2.
     bnd (if f2 = None then first_non_password_input S drv else ret f2) (\<lambda>f3.
     if f3 = None
     then (if iframes \<noteq> [] then search_iframes S drv iframes else ret None)
     else ret f3)))"

text \<open>Lines 359 to 389.\<close>

definition find_password_field :: "'d selenium \<Rightarrow> driver_ref option \<Rightarrow> (web_element option, 'd) act" where
  "find_password_field S drv =
     bnd (first_match S drv password_selectors) (\<lambda>f1.
     if f1 = None
     then try_except
            (bnd (on_driver drv (\<lambda>h. find_elements S h CSS_SELECTOR ''input[type='password']''))
                 (\<lambda>password_inputs. ret (first_of password_inputs)))
            (\<lambda>e. ret None)
     else ret f1)"

text \<open>
  Lines 401 to 449: \<open>True\<close> when control reaches line 451, \<open>False\<close> when one of the
  \<^verbatim>\<open>return False\<close> was taken.
\<close>

definition submit_login_form ::
  "'d selenium \<Rightarrow> driver_ref option \<Rightarrow> web_element option \<Rightarrow> (bool, 'd) act" where
  "submit_login_form S drv password_field =
     bnd (first_match S drv submit_selectors) (\<lambda>submit_button.
     case submit_button of
       None \<Rightarrow>
         try_except
           (case password_field of
              Some pf \<Rightarrow> bnd (send_keys S pf [CHR 0x0A]) (\<lambda>_. ret True)
            | None \<Rightarrow> ret False)
           (\<lambda>e. ret False)
     | Some b \<Rightarrow>
         bnd (try_interact_with_element S drv (Some b) ''click'' None) (\<lambda>clicked.
         if \<not> clicked
         then try_except
                (case password_field of
                   Some pf \<Rightarrow> bnd (send_keys S pf [CHR 0x0A]) (\<lambda>_. ret True)
                 | None \<Rightarrow> ret True)
                (\<lambda>e. ret False)
         else ret True))"

text \<open>\<^verbatim>\<open>_is_logged_in\<close>\<close>

definition is_logged_in_check :: "'d selenium \<Rightarrow> driver_ref option \<Rightarrow> (bool, 'd) act" where
  "is_logged_in_check S drv =
     try_except
       (bnd (on_driver drv (\<lambda>h. find_elements S h PARTIAL_LINK_TEXT ''Logout'')) (\<lambda>logout_elements.
        bnd (on_driver drv (\<lambda>h. find_elements S h PARTIAL_LINK_TEXT ''Tools'')) (\<lambda>admin_elements.
        bnd (on_driver drv (\<lambda>h. find_elements S h PARTIAL_LINK_TEXT ''Shaare'')) (\<lambda>add_elements.
        ret (length logout_elements > 0 \<or> length admin_elements > 0 \<or> length add_elements > 0)))))
       (\<lambda>e. ret False)"

text \<open>
  Lines 232 to 449, up to the submission of the form: \<open>True\<close> when control reaches the
  settle delay of line 452, \<open>False\<close> when a \<^verbatim>\<open>return False\<close> was taken before.
\<close>

definition login_steps :: "'d selenium \<Rightarrow> client \<Rightarrow> string \<Rightarrow> string \<Rightarrow> (bool, 'd) act" where
  "login_steps S self username password =
     (let drv = driver self in
      bnd (on_driver drv (\<lambda>h. drv_get S h (base_url self @ ''/login''))) (\<lambda>_.
      bnd (wait_for_page_ready S drv 10) (\<lambda>_.
      bnd (check_for_iframes S drv) (\<lambda>iframes.
      bnd (debug_page_elements S drv) (\<lambda>_.
      bnd (try_except_timeout
             (bnd (wait_until S drv (timeout self)
                     (bnd (on_driver drv (\<lambda>h. find_element S h TAG_NAME ''input'')) (\<lambda>_. ret True)))
                  (\<lambda>_. ret True))
             (ret False)) (\<lambda>loaded.
      if \<not> loaded then ret False else
      bnd (find_username_field S drv iframes) (\<lambda>username_field.
      if username_field = None then ret False else
      bnd (try_interact_with_element S drv username_field ''send_keys'' (Some username)) (\<lambda>typed.
      if \<not> typed then ret False else
      bnd (find_password_field S drv) (\<lambda>password_field.
      if password_field = None then ret False else
      bnd (try_interact_with_element S drv password_field ''send_keys'' (Some password)) (\<lambda>typed.
      if \<not> typed then ret False else
      submit_login_form S drv password_field))))))))))"

text \<open>
  Lines 451 to 462: the settle delay, then the verdict. Python's \<^verbatim>\<open>or\<close> does not call
  \<^verbatim>\<open>_is_logged_in\<close> when the URL has no \<^verbatim>\<open>login\<close> in it.
\<close>

definition login_verdict :: "'d selenium \<Rightarrow> driver_ref option \<Rightarrow> (bool, 'd) act" where
  "login_verdict S drv =
     bnd (sleep S 3) (\<lambda>_.
     bnd (on_driver drv (\<lambda>h. current_url S h)) (\<lambda>url.
     if \<not> py_in ''login'' url then ret True
     else bnd (is_logged_in_check S drv) (\<lambda>marker. if marker then ret True else ret False)))"

text \<open>Lines 232 to 462, the body of the \<^verbatim>\<open>try\<close> block of \<^verbatim>\<open>login\<close>.\<close>

definition login_body :: "'d selenium \<Rightarrow> client \<Rightarrow> string \<Rightarrow> string \<Rightarrow> (bool, 'd) act" where
  "login_body S self username password =
     bnd (login_steps S self username password) (\<lambda>submitted.
     if submitted then login_verdict S (driver self) else ret False)"

text \<open>
  \<^verbatim>\<open>login\<close>. The body returns \<open>True\<close> at line 459 only, right after line 457 has set
  \<^verbatim>\<open>self.is_logged_in\<close>; both handlers (lines 464 and 467) return \<open>False\<close>. A method
  returns its result, the client as it leaves it, and the world.
\<close>

definition login :: "'d selenium \<Rightarrow> client \<Rightarrow> string \<Rightarrow> string \<Rightarrow> 'd \<Rightarrow> (exn + bool) \<times> client \<times> 'd" where
  "login S self username password d =
     (if driver self = None
      then (Inl (RuntimeError ''WebDriver not initialized. Call start_driver() first.''), self, d)
      else
        (case try_except (login_body S self username password) (\<lambda>e. ret False) d of
           (Inr True, d') \<Rightarrow> (Inr True, self\<lparr>is_logged_in := True\<rparr>, d')
         | (r, d') \<Rightarrow> (r, self, d')))"

subsection \<open>\<^verbatim>\<open>add_url\<close>\<close>

definition url_selectors :: "(By \<times> string) list" where
  "url_selectors =
     [(NAME, ''post''),
      (ID, ''shaare''),
      (CSS_SELECTOR, ''input[name='post']''),
      (CSS_SELECTOR, ''input[type='url']''),
      (CSS_SELECTOR, ''input[type='text']''),
      (XPATH, ''//input[@name='post']''),
      (XPATH, ''//input[@id='shaare']''),
      (XPATH, ''//input[@type='url']'')]"

definition first_submit_selectors :: "(By \<times> string) list" where
  "first_submit_selectors =
     [(CSS_SELECTOR, ''input[type='submit']''),
      (CSS_SELECTOR, ''button[type='submit']''),
      (CSS_SELECTOR, ''input[value*='Add']''),
      (CSS_SELECTOR, ''button''),
      (XPATH, ''//input[@type='submit']''),
      (XPATH, ''//button[@type='submit']''),
      (XPATH, ''//input[contains(@value, 'Add')]''),
      (XPATH, ''//button[contains(text(), 'Add')]'')]"

definition title_selectors :: "(By \<times> string) list" where
  "title_selectors =
     [(NAME, ''lf_title''),
      (NAME, ''title''),
      (ID, ''lf_title''),
      (ID, ''title''),
      (CSS_SELECTOR, ''input[name='lf_title']''),
      (CSS_SELECTOR, ''input[name='title']''),
      (XPATH, ''//input[@name='lf_title']''),
      (XPATH, ''//input[@name='title']'')]"

definition desc_selectors :: "(By \<times> string) list" where
  "desc_selectors =
     [(NAME, ''lf_description''),
      (NAME, ''description''),
      (ID, ''lf_description''),
      (ID, ''description''),
      (CSS_SELECTOR, ''textarea[name='lf_description']''),
      (CSS_SELECTOR, ''textarea[name='description']''),
      (XPATH, ''//textarea[@name='lf_description']''),
      (XPATH, ''//textarea[@name='description']'')]"

definition tags_selectors :: "(By \<times> string) list" where
  "tags_selectors =
     [(NAME, ''lf_tags''),
      (NAME, ''tags''),
      (ID, ''lf_tags''),
      (ID, ''tags''),
      (CSS_SELECTOR, ''input[name='lf_tags']''),
      (CSS_SELECTOR, ''input[name='tags']''),
      (XPATH, ''//input[@name='lf_tags']''),
      (XPATH, ''//input[@name='tags']'')]"

definition private_selectors :: "(By \<times> string) list" where
  "private_selectors =
     [(NAME, ''lf_private''),
      (NAME, ''private''),
      (ID, ''lf_private''),
      (ID, ''private''),
      (CSS_SELECTOR, ''input[name='lf_private']''),
      (CSS_SELECTOR, ''input[name='private']''),
      (XPATH, ''//input[@name='lf_private']''),
      (XPATH, ''//input[@name='private']'')]"

definition save_selectors :: "(By \<times> string) list" where
  "save_selectors =
     [(CSS_SELECTOR, ''input[type='submit'][value*='Save']''),
      (CSS_SELECTOR, ''button[type='submit']''),
      (CSS_SELECTOR, ''input[type='submit']''),
      (CSS_SELECTOR, ''button''),
      (XPATH, ''//input[@type='submit' and contains(@value, 'Save')]''),
      (XPATH, ''//button[@type='submit']''),
      (XPATH, ''//button[contains(text(), 'Save')]''),
      (XPATH, ''//input[@type='submit']'')]"

text \<open>
  The loops of lines 639 and 664: the first selector with a match has its first element
  filled in, whatever \<^verbatim>\<open>try_interact_with_element\<close> answers, and ends the loop.
\<close>

definition fill_optional ::
  "'d selenium \<Rightarrow> driver_ref option \<Rightarrow> (By \<times> string) list \<Rightarrow> string \<Rightarrow> (unit option, 'd) act" where
  "fill_optional S drv selectors text =
     for_break (\<lambda>(selector_type, selector_value).
       try_except
         (bnd (on_driver drv (\<lambda>h. find_elements S h selector_type selector_value)) (\<lambda>elements.
          case elements of
            [] \<Rightarrow> ret None
          | el # _ \<Rightarrow>
              bnd (try_interact_with_element S drv (Some el) ''send_keys'' (Some text))
                  (\<lambda>_. ret (Some ()))))
         (\<lambda>e. ret None)) selectors"

text \<open>The loop of line 689: the checkbox is clicked only when it is not selected yet.\<close>

definition set_private :: "'d selenium \<Rightarrow> driver_ref option \<Rightarrow> (unit option, 'd) act" where
  "set_private S drv =
     for_break (\<lambda>(selector_type, selector_value).
       try_except
         (bnd (on_driver drv (\<lambda>h. find_elements S h selector_type selector_value)) (\<lambda>elements.
          case elements of
            [] \<Rightarrow> ret None
          | private_checkbox # _ \<Rightarrow>
              bnd (is_selected S private_checkbox) (\<lambda>selected.
              if \<not> selected
              then bnd (try_interact_with_element S drv (Some private_checkbox) ''click'' None)
                       (\<lambda>_. ret (Some ()))
              else ret (Some ()))))
         (\<lambda>e. ret None)) private_selectors"

text \<open>
  Lines 505 to 734, up to the click on the save button: \<open>True\<close> when control reaches
  the settle delay of line 737, \<open>False\<close> when a \<^verbatim>\<open>return False\<close> was taken before.
\<close>

definition add_url_steps ::
  "'d selenium \<Rightarrow> client \<Rightarrow> string \<Rightarrow> string \<Rightarrow> string \<Rightarrow> string \<Rightarrow> bool \<Rightarrow> (bool, 'd) act" where
  "add_url_steps S self url title description tags private =
     (let drv = driver self in
      bnd (on_driver drv (\<lambda>h. drv_get S h (base_url self @ ''/admin/add-shaare''))) (\<lambda>_.
      bnd (wait_for_page_ready S drv 10) (\<lambda>_.
      bnd (first_match S drv url_selectors) (\<lambda>url_field.
      if url_field = None then bnd (debug_page_elements S drv) (\<lambda>_. ret False) else
      bnd (try_interact_with_element S drv url_field ''send_keys'' (Some url)) (\<lambda>typed.
      if \<not> typed then ret False else
      bnd (first_match S drv first_submit_selectors) (\<lambda>first_submit_button.
      bnd (if first_submit_button \<noteq> None
           then try_interact_with_element S drv first_submit_button ''click'' None
           else try_interact_with_element S drv url_field ''send_keys'' (Some [CHR 0x0A])) (\<lambda>submitted.
      if \<not> submitted then ret False else
      bnd (sleep S 2) (\<lambda>_.
      bnd (wait_for_page_ready S drv 10) (\<lambda>_.
      bnd (first_match S drv title_selectors) (\<lambda>title_field.
      if title_field = None then bnd (debug_page_elements S drv) (\<lambda>_. ret False) else
      bnd (if title \<noteq> []
           then bnd (try_interact_with_element S drv title_field ''send_keys'' (Some title))
                    (\<lambda>_. ret ())
           else ret ()) (\<lambda>_.
      bnd (if description \<noteq> []
           then bnd (fill_optional S drv desc_selectors description) (\<lambda>_. ret ())
           else ret ()) (\<lambda>_.
      bnd (if tags \<noteq> []
           then bnd (fill_optional S drv tags_selectors tags) (\<lambda>_. ret ())
           else ret ()) (\<lambda>_.
      bnd (if private then bnd (set_private S drv) (\<lambda>_. ret ()) else ret ()) (\<lambda>_.
      bnd (first_match S drv save_selectors) (\<lambda>save_button.
      if save_button \<noteq> None
      then bnd (try_interact_with_element S drv save_button ''click'' None) (\<lambda>clicked.
           if \<not> clicked then ret False else ret True)
      else bnd (debug_page_elements S drv) (\<lambda>_. ret False))))))))))))))))"

text \<open>Lines 736 to 747: the settle delay, then the verdict.\<close>

definition add_url_verdict :: "'d selenium \<Rightarrow> driver_ref option \<Rightarrow> (bool, 'd) act" where
  "add_url_verdict S drv =
     bnd (sleep S 3) (\<lambda>_.
     bnd (on_driver drv (\<lambda>h. current_url S h)) (\<lambda>url.
     if \<not> py_in ''add-shaare'' url \<and> \<not> py_in ''admin'' url then ret True else ret False))"

text \<open>Lines 505 to 747, the body of the \<^verbatim>\<open>try\<close> block of \<^verbatim>\<open>add_url\<close>.\<close>

definition add_url_body ::
  "'d selenium \<Rightarrow> client \<Rightarrow> string \<Rightarrow> string \<Rightarrow> string \<Rightarrow> string \<Rightarrow> bool \<Rightarrow> (bool, 'd) act" where
  "add_url_body S self url title description tags private =
     bnd (add_url_steps S self url title description tags private) (\<lambda>saved.
     if saved then add_url_verdict S (driver self) else ret False)"

text \<open>\<^verbatim>\<open>add_url\<close>: both handlers (lines 749 and 752) return \<open>False\<close>.\<close>

definition add_url ::
  "'d selenium \<Rightarrow> client \<Rightarrow> string \<Rightarrow> string \<Rightarrow> string \<Rightarrow> string \<Rightarrow> bool \<Rightarrow> 'd
   \<Rightarrow> (exn + bool) \<times> client \<times> 'd" where
  "add_url S self url title description tags private d =
     (if driver self = None then (Inl (RuntimeError ''WebDriver not initialized''), self, d)
      else if \<not> is_logged_in self
      then (Inl (RuntimeError ''Not logged in. Call login() first.''), self, d)
      else
        (case try_except (add_url_body S self url title description tags private)
                (\<lambda>e. ret False) d of
           (r, d') \<Rightarrow> (r, self, d')))"

subsection \<open>\<^verbatim>\<open>get_links\<close>\<close>

text \<open>
  The dictionary \<^verbatim>\<open>link_info\<close>: where line 960 reads it, it has exactly these four
  keys, and \<^verbatim>\<open>url\<close> holds what \<^verbatim>\<open>get_attribute("href")\<close> answered, a string or
  \<^verbatim>\<open>None\<close>.
\<close>

record link_info =
  url :: "string option"
  title :: string
  description :: string
  tags :: string

definition modern_selectors :: "string list" where
  "modern_selectors =
     [''.linklist .linklist-item'', ''.bookmark'', ''.shaare'', ''.link'', ''article'', ''.post'']"

definition container_selectors :: "string list" where
  "container_selectors = [''.main-content'', ''.content'', ''#content'', ''main'', ''.container'']"

definition link_selectors :: "string list" where
  "link_selectors =
     [''a[href*='http']'', ''.linklist-link'', ''.bookmark-title a'', ''.shaare-title a'', ''a'']"

definition description_selectors :: "string list" where
  "description_selectors =
     [''.linklist-description'', ''.bookmark-description'', ''.shaare-description'',
      ''.description'', ''p'', ''.text'']"

definition tag_selectors :: "string list" where
  "tag_selectors = [''.linklist-tags'', ''.bookmark-tags'', ''.shaare-tags'', ''.tags'', ''.tag'']"

text \<open>\<^verbatim>\<open>href and "http" in href and self.base_url not in href\<close>\<close>

fun is_external :: "string \<Rightarrow> string option \<Rightarrow> bool" where
  "is_external base None = False"
| "is_external base (Some href) = (href \<noteq> [] \<and> py_in ''http'' href \<and> \<not> py_in base href)"

definition external_links :: "'d selenium \<Rightarrow> string \<Rightarrow> web_element list \<Rightarrow> (web_element list, 'd) act" where
  "external_links S base links =
     filter_m (\<lambda>link. bnd (get_attribute S link ''href'') (\<lambda>href. ret (is_external base href))) links"

text \<open>Approach 1 (lines 793 to 803).\<close>

definition links_by_selector ::
  "'d selenium \<Rightarrow> driver_ref option \<Rightarrow> int \<Rightarrow> (web_element list, 'd) act" where
  "links_by_selector S drv limit =
     bnd (for_break (\<lambda>selector.
            try_except
              (bnd (on_driver drv (\<lambda>h. find_elements S h CSS_SELECTOR selector)) (\<lambda>elements.
               ret (if elements \<noteq> [] then Some (slice_to limit elements) else None)))
              (\<lambda>e. ret None)) modern_selectors)
         (\<lambda>found. ret (case found of None \<Rightarrow> [] | Some link_elements \<Rightarrow> link_elements))"

text \<open>Approach 2 (lines 806 to 824).\<close>

definition links_by_href ::
  "'d selenium \<Rightarrow> driver_ref option \<Rightarrow> string \<Rightarrow> int \<Rightarrow> (web_element list, 'd) act" where
  "links_by_href S drv base limit =
     try_except
       (bnd (on_driver drv (\<lambda>h. find_elements S h TAG_NAME ''a'')) (\<lambda>all_links.
        bnd (external_links S base all_links) (\<lambda>potential_links.
        ret (if potential_links \<noteq> [] then slice_to limit potential_links else []))))
       (\<lambda>e. ret [])"

text \<open>Approach 3 (lines 827 to 856).\<close>

definition links_by_container ::
  "'d selenium \<Rightarrow> driver_ref option \<Rightarrow> string \<Rightarrow> int \<Rightarrow> (web_element list, 'd) act" where
  "links_by_container S drv base limit =
     bnd (for_break (\<lambda>container_selector.
            try_except
              (bnd (on_driver drv (\<lambda>h. find_element S h CSS_SELECTOR container_selector)) (\<lambda>container.
               bnd (el_find_elements S container TAG_NAME ''a'') (\<lambda>container_links.
               if container_links \<noteq> []
               then bnd (external_links S base container_links) (\<lambda>ext.
                    ret (if ext \<noteq> [] then Some (slice_to limit ext) else None))
               else ret None)))
              (\<lambda>e. ret None)) container_selectors)
         (\<lambda>found. ret (case found of None \<Rightarrow> [] | Some link_elements \<Rightarrow> link_elements))"

text \<open>
  \<^verbatim>\<open>e.text.strip() or e.get_attribute("title") or "No title"\<close> (lines 874 and 905).
\<close>

definition title_of :: "'d selenium \<Rightarrow> web_element \<Rightarrow> (string, 'd) act" where
  "title_of S e =
     bnd (el_text S e) (\<lambda>t.
     if strip t \<noteq> [] then ret (strip t)
     else bnd (get_attribute S e ''title'') (\<lambda>a.
          case a of
            Some s \<Rightarrow> if s \<noteq> [] then ret s else ret ''No title''
          | None \<Rightarrow> ret ''No title''))"

text \<open>Lines 879 to 901: the first external anchor inside a container element.\<close>

definition find_link_elem ::
  "'d selenium \<Rightarrow> string \<Rightarrow> web_element \<Rightarrow> (web_element option, 'd) act" where
  "find_link_elem S base element =
     for_break (\<lambda>link_sel.
       try_except
         (bnd (el_find_elements S element CSS_SELECTOR link_sel) (\<lambda>found_links.
          if found_links \<noteq> []
          then for_break (\<lambda>fl.
                 bnd (get_attribute S fl ''href'') (\<lambda>href.
                 ret (if is_external base href then Some fl else None))) found_links
          else ret None))
         (\<lambda>e. ret None)) link_selectors"

text \<open>Lines 912 to 932.\<close>

definition find_description :: "'d selenium \<Rightarrow> web_element \<Rightarrow> (string, 'd) act" where
  "find_description S element =
     bnd (tag_name S element) (\<lambda>tag.
     if tag \<noteq> ''a''
     then bnd (for_break (\<lambda>desc_sel.
                 try_except
                   (bnd (el_find_element S element CSS_SELECTOR desc_sel) (\<lambda>desc_elem.
                    bnd (el_text S desc_elem) (\<lambda>t.
                    ret (if strip t \<noteq> [] then Some (strip t) else None))))
                   (\<lambda>e. ret None)) description_selectors)
              (\<lambda>found. ret (case found of None \<Rightarrow> [] | Some d \<Rightarrow> d))
     else ret [])"

text \<open>
  Lines 936 to 955. The comprehension of line 951 reads \<^verbatim>\<open>te.text\<close> once for its
  condition and once more for its value.
\<close>

definition find_tags :: "'d selenium \<Rightarrow> web_element \<Rightarrow> (string, 'd) act" where
  "find_tags S element =
     bnd (tag_name S element) (\<lambda>tag.
     if tag \<noteq> ''a''
     then bnd (for_break (\<lambda>tag_sel.
                 try_except
                   (bnd (el_find_elements S element CSS_SELECTOR tag_sel) (\<lambda>tag_elems.
                    if tag_elems \<noteq> []
                    then bnd (map_m (\<lambda>te.
                                bnd (el_text S te) (\<lambda>t.
                                if strip t \<noteq> []
                                then bnd (el_text S te) (\<lambda>t'. ret [strip t'])
                                else ret [])) tag_elems)
                             (\<lambda>tag_texts. ret (Some (join_space (concat tag_texts))))
                    else ret None))
                   (\<lambda>e. ret None)) tag_selectors)
              (\<lambda>found. ret (case found of None \<Rightarrow> [] | Some t \<Rightarrow> t))
     else ret [])"

text \<open>
  Lines 867 to 966, the body of the loop over the candidate elements: what the element
  adds to \<^verbatim>\<open>links\<close>, nothing (\<open>[]\<close>) when it is skipped, when its record has no
  url, or when reading it raised.
\<close>

definition parse_link_element :: "'d selenium \<Rightarrow> string \<Rightarrow> web_element \<Rightarrow> (link_info list, 'd) act" where
  "parse_link_element S base element =
     try_except
       (bnd (tag_name S element) (\<lambda>tag.
        bnd (if tag = ''a''
             then bnd (get_attribute S element ''href'') (\<lambda>u.
                  bnd (title_of S element) (\<lambda>t. ret (Some (u, t))))
             else bnd (find_link_elem S base element) (\<lambda>link_elem.
                  case link_elem of
                    Some le \<Rightarrow>
                      bnd (get_attribute S le ''href'') (\<lambda>u.
                      bnd (title_of S le) (\<lambda>t. ret (Some (u, t))))
                  | None \<Rightarrow> ret None)) (\<lambda>found.
        case found of
          None \<Rightarrow> ret []
        | Some (u, t) \<Rightarrow>
            bnd (find_description S element) (\<lambda>desc.
            bnd (find_tags S element) (\<lambda>tgs.
            ret (if truthy u
                 then [\<lparr> url = u, title = t, description = desc, tags = tgs \<rparr>]
                 else []))))))
       (\<lambda>e. ret [])"

text \<open>Lines 769 to 969, the body of the \<^verbatim>\<open>try\<close> block of \<^verbatim>\<open>get_links\<close>.\<close>

definition get_links_body :: "'d selenium \<Rightarrow> client \<Rightarrow> int \<Rightarrow> (link_info list, 'd) act" where
  "get_links_body S self limit =
     (let drv = driver self; base = base_url self in
      bnd (on_driver drv (\<lambda>h. drv_get S h base)) (\<lambda>_.
      bnd (wait_for_page_ready S drv 10) (\<lambda>_.
      bnd (debug_page_elements S drv) (\<lambda>_.
      bnd (links_by_selector S drv limit) (\<lambda>l1.
      bnd (if l1 = [] then links_by_href S drv base limit else ret l1) (\<lambda>l2.
      bnd (if l2 = [] then links_by_container S drv base limit else ret l2) (\<lambda>link_elements.
      if link_elements = []
      then bnd (on_driver drv (\<lambda>h. page_source S h)) (\<lambda>page_source. ret [])
      else bnd (map_m (parse_link_element S base) link_elements)
               (\<lambda>links. ret (concat links)))))))))"

definition get_links :: "'d selenium \<Rightarrow> client \<Rightarrow> int \<Rightarrow> 'd \<Rightarrow> (exn + link_info list) \<times> client \<times> 'd" where
  "get_links S self limit d =
     (if \<not> is_logged_in self
      then (Inl (RuntimeError ''Not logged in. Call login() first.''), self, d)
      else
        (case try_except (get_links_body S self limit) (\<lambda>e. ret []) d of
           (r, d') \<Rightarrow> (r, self, d')))"

subsection \<open>The session\<close>

text \<open>\<^verbatim>\<open>start_driver\<close> (also \<^verbatim>\<open>__enter__\<close>): what it catches it raises again.\<close>

definition start_driver :: "'d selenium \<Rightarrow> client \<Rightarrow> 'd \<Rightarrow> (exn + unit) \<times> client \<times> 'd" where
  "start_driver S self d =
     (case Firefox S (firefox_options self) d of
        (Inl e, d') \<Rightarrow> (Inl e, self, d')
      | (Inr h, d') \<Rightarrow>
          (case set_window_size S h 1920 1080 d' of
             (r, d'') \<Rightarrow> (r, self\<lparr>driver := Some h\<rparr>, d'')))"

text \<open>\<^verbatim>\<open>close\<close> (also \<^verbatim>\<open>__exit__\<close>).\<close>

definition close :: "'d selenium \<Rightarrow> client \<Rightarrow> 'd \<Rightarrow> (exn + unit) \<times> client \<times> 'd" where
  "close S self d =
     (case driver self of
        None \<Rightarrow> (Inr (), self, d)
      | Some h \<Rightarrow> (case quit S h d of (r, d') \<Rightarrow> (r, self, d')))"

definition test_connectivity :: "'d selenium \<Rightarrow> client \<Rightarrow> 'd \<Rightarrow> (exn + bool) \<times> client \<times> 'd" where
  "test_connectivity S self d =
     (case requests_get S (base_url self) 5 d of
        (Inr status_code, d') \<Rightarrow> (Inr (status_code < 400), self, d')
      | (Inl e, d') \<Rightarrow>
          if e = ImportError
          then (case try_except
                       (bnd (on_driver (driver self) (\<lambda>h. drv_get S h (base_url self))) (\<lambda>_.
                        bnd (on_driver (driver self) (\<lambda>h. current_url S h)) (\<lambda>u.
                        ret (\<not> py_in ''neterror'' u))))
                       (\<lambda>e. ret False) d' of
                  (r, d'') \<Rightarrow> (r, self, d''))
          else (Inr False, self, d'))"

section \<open>The interaction escalator as the specification words it\<close>

text \<open>
  The three tactics of the specification, each a single action that completes or raises:
  direct (click, or clear then type), scrolled (have the session scroll the element
  smoothly to the centre of the viewport, pause for one second, then the direct action),
  scripted (a script-level click, or a script-level assignment followed by the
  \<^verbatim>\<open>input\<close> and \<^verbatim>\<open>change\<close> events). They are written out here on the operations
  of Selenium alone, with the scripts they run, and use no definition of the client.
  \<open>escalate\<close> runs tactics in order up to the first that completes.
\<close>

definition spec_direct :: "'d selenium \<Rightarrow> web_element \<Rightarrow> string \<Rightarrow> string \<Rightarrow> (unit, 'd) act" where
  "spec_direct S el action t =
     (if action = ''click'' then click S el
      else bnd (clear S el) (\<lambda>_. send_keys S el t))"

definition spec_scroll_and_pause ::
  "'d selenium \<Rightarrow> driver_ref option \<Rightarrow> web_element \<Rightarrow> (unit, 'd) act" where
  "spec_scroll_and_pause S drv el =
     bnd (case drv of
            None \<Rightarrow> throw AttributeError
          | Some h \<Rightarrow> execute_script S h
              ''arguments[0].scrollIntoView({behavior: 'smooth', block: 'center'});''
              [ArgElement el]) (\<lambda>_.
     (\<lambda>d. (Inr (), time_sleep S 1 d)))"

definition spec_scrolled ::
  "'d selenium \<Rightarrow> driver_ref option \<Rightarrow> web_element \<Rightarrow> string \<Rightarrow> string \<Rightarrow> (unit, 'd) act" where
  "spec_scrolled S drv el action t =
     bnd (spec_scroll_and_pause S drv el) (\<lambda>_. spec_direct S el action t)"

definition spec_run_script ::
  "'d selenium \<Rightarrow> driver_ref option \<Rightarrow> string \<Rightarrow> js_arg list \<Rightarrow> (unit, 'd) act" where
  "spec_run_script S drv script args =
     bnd (case drv of
            None \<Rightarrow> throw AttributeError
          | Some h \<Rightarrow> execute_script S h script args) (\<lambda>_. ret ())"

definition spec_scripted ::
  "'d selenium \<Rightarrow> driver_ref option \<Rightarrow> web_element \<Rightarrow> string \<Rightarrow> string \<Rightarrow> (unit, 'd) act" where
  "spec_scripted S drv el action t =
     (if action = ''click''
      then spec_run_script S drv ''arguments[0].click();'' [ArgElement el]
      else
        bnd (spec_run_script S drv (''arguments[0].value = '' @ [CHR 0x27, CHR 0x27] @ '';'')
               [ArgElement el]) (\<lambda>_.
        bnd (spec_run_script S drv ''arguments[0].value = arguments[1];''
               [ArgElement el, ArgString t]) (\<lambda>_.
        bnd (spec_run_script S drv
               ''arguments[0].dispatchEvent(new Event('input', {bubbles: true}));''
               [ArgElement el]) (\<lambda>_.
        spec_run_script S drv
          ''arguments[0].dispatchEvent(new Event('change', {bubbles: true}));''
          [ArgElement el]))))"

fun escalate :: "(unit, 'd) act list \<Rightarrow> (bool, 'd) act" where
  "escalate [] d = (Inr False, d)"
| "escalate (tactic # tactics) d =
     (case tactic d of
        (Inr u, d') \<Rightarrow> (Inr True, d')
      | (Inl e, d') \<Rightarrow> escalate tactics d')"

section \<open>The resolver as the specification words it\<close>

text \<open>
  \<open>all_miss\<close> runs the queries of the rules in order and answers the state they leave
  when every one of them matched nothing (an empty answer, or a query that raised);
  \<open>None\<close> as soon as one of them matched.
\<close>

fun all_miss :: "'d selenium \<Rightarrow> driver_ref \<Rightarrow> (By \<times> string) list \<Rightarrow> 'd \<Rightarrow> 'd option" where
  "all_miss S h [] d = Some d"
| "all_miss S h (rule # rules) d =
     (case find_elements S h (fst rule) (snd rule) d of
        (Inr [], d') \<Rightarrow> all_miss S h rules d'
      | (Inr (e # es), d') \<Rightarrow> None
      | (Inl ex, d') \<Rightarrow> all_miss S h rules d')"

text \<open>
  The post-login marker of the specification: the three partial-link-text lookups
  (\<^verbatim>\<open>Logout\<close>, \<^verbatim>\<open>Tools\<close>, \<^verbatim>\<open>Shaare\<close>) answer, and one of them found a link.
\<close>

definition marker_found :: "'d selenium \<Rightarrow> driver_ref \<Rightarrow> 'd \<Rightarrow> bool" where
  "marker_found S h d =
     (case find_elements S h PARTIAL_LINK_TEXT ''Logout'' d of
        (Inl e, d1) \<Rightarrow> False
      | (Inr logout, d1) \<Rightarrow>
          (case find_elements S h PARTIAL_LINK_TEXT ''Tools'' d1 of
             (Inl e, d2) \<Rightarrow> False
           | (Inr tools, d2) \<Rightarrow>
               (case find_elements S h PARTIAL_LINK_TEXT ''Shaare'' d2 of
                  (Inl e, d3) \<Rightarrow> False
                | (Inr shaare, d3) \<Rightarrow> logout \<noteq> [] \<or> tools \<noteq> [] \<or> shaare \<noteq> [])))"



section \<open>The caller\<close>

text \<open>
  A caller uses a client through its methods, one call after the other, whatever they
  return or raise. \<open>step\<close> is one call, \<open>run\<close> a sequence of calls.
\<close>

datatype call =
    Start_driver
  | Close
  | Test_connectivity
  | Wait_for_page_ready int
  | Check_for_iframes
  | Try_interact_with_element "web_element option" string "string option"
  | Debug_page_elements
  | Login string string
  | Is_logged_in
  | Add_url string string string string bool
  | Get_links int

fun step :: "'d selenium \<Rightarrow> call \<Rightarrow> client \<times> 'd \<Rightarrow> client \<times> 'd" where
  "step S Start_driver (self, d) = snd (start_driver S self d)"
| "step S Close (self, d) = snd (close S self d)"
| "step S Test_connectivity (self, d) = snd (test_connectivity S self d)"
| "step S (Wait_for_page_ready tmo) (self, d) = (self, snd (wait_for_page_ready S (driver self) tmo d))"
| "step S Check_for_iframes (self, d) = (self, snd (check_for_iframes S (driver self) d))"
| "step S (Try_interact_with_element el action text) (self, d) =
     (self, snd (try_interact_with_element S (driver self) el action text d))"
| "step S Debug_page_elements (self, d) = (self, snd (debug_page_elements S (driver self) d))"
| "step S (Login username password) (self, d) = snd (login S self username password d)"
| "step S Is_logged_in (self, d) = (self, snd (is_logged_in_check S (driver self) d))"
| "step S (Add_url u t de ta p) (self, d) = snd (add_url S self u t de ta p d)"
| "step S (Get_links limit) (self, d) = snd (get_links S self limit d)"

fun run :: "'d selenium \<Rightarrow> call list \<Rightarrow> client \<times> 'd \<Rightarrow> client \<times> 'd" where
  "run S [] st = st"
| "run S (c # cs) st = run S cs (step S c st)"

section \<open>Example sessions\<close>

text \<open>
  A small world to run the client in: the current URL, the browsing context (the iframe
  switched into, if any), whether the page was scrolled, and what has happened to the
  elements of the page, in order. \<open>idle\<close> is a browser on an
  empty page: every lookup comes back empty, every action succeeds and changes nothing.
  Its \<open>wait_until\<close> polls once, and like Selenium's turns a missing element into a
  timeout. The other sessions change a few operations of \<open>idle\<close>.
\<close>

record world =
  w_url :: string
  w_frame :: "web_element option"
  w_scrolled :: bool
  w_events :: "string list"

definition w0 :: world where
  "w0 = \<lparr> w_url = ''about:blank'', w_frame = None, w_scrolled = False, w_events = [] \<rparr>"

definition idle :: "world selenium" where
  "idle =
     \<lparr> Firefox = (\<lambda>opts. ret 0),
       set_window_size = (\<lambda>h w t. ret ()),
       quit = (\<lambda>h. ret ()),
       drv_get = (\<lambda>h u d. (Inr (), d\<lparr>w_url := u, w_frame := None\<rparr>)),
       current_url = (\<lambda>h d. (Inr (w_url d), d)),
       page_source = (\<lambda>h. ret []),
       execute_script = (\<lambda>h s a. ret JsNull),
       find_elements = (\<lambda>h by v. ret []),
       find_element = (\<lambda>h by v. throw NoSuchElementException),
       switch_to_frame = (\<lambda>h f d. (Inr (), d\<lparr>w_frame := Some f\<rparr>)),
       switch_to_default_content = (\<lambda>h d. (Inr (), d\<lparr>w_frame := None\<rparr>)),
       wait_until = (\<lambda>drv tmo cond d.
         case cond d of
           (Inr b, d') \<Rightarrow> (if b then (Inr (), d') else (Inl TimeoutException, d'))
         | (Inl e, d') \<Rightarrow>
             (if e = NoSuchElementException then (Inl TimeoutException, d') else (Inl e, d'))),
       el_find_elements = (\<lambda>e by v. ret []),
       el_find_element = (\<lambda>e by v. throw NoSuchElementException),
       get_attribute = (\<lambda>e a. ret None),
       tag_name = (\<lambda>e. ret ''div''),
       el_text = (\<lambda>e. ret []),
       is_selected = (\<lambda>e. ret False),
       click = (\<lambda>e. ret ()),
       clear = (\<lambda>e. ret ()),
       send_keys = (\<lambda>e k. ret ()),
       time_sleep = (\<lambda>n d. d),
       requests_get = (\<lambda>u t. ret 200) \<rparr>"

text \<open>
  What the scripts of the client do to a page that runs them: the scroll script scrolls,
  the others click the element, empty or set its value, or fire an event.
\<close>

definition run_script :: "string \<Rightarrow> js_arg list \<Rightarrow> world \<Rightarrow> world" where
  "run_script script args d =
     (if script = ''arguments[0].scrollIntoView({behavior: 'smooth', block: 'center'});''
      then d\<lparr>w_scrolled := True, w_events := w_events d @ [''scroll'']\<rparr>
      else if script = ''arguments[0].click();''
      then d\<lparr>w_events := w_events d @ [''script click'']\<rparr>
      else if script = ''arguments[0].value = '' @ [CHR 0x27, CHR 0x27] @ '';''
      then d\<lparr>w_events := w_events d @ [''script empty'']\<rparr>
      else if script = ''arguments[0].value = arguments[1];''
      then d\<lparr>w_events := w_events d @ [''script assign'']\<rparr>
      else if script = ''arguments[0].dispatchEvent(new Event('input', {bubbles: true}));''
      then d\<lparr>w_events := w_events d @ [''input event'']\<rparr>
      else if script = ''arguments[0].dispatchEvent(new Event('change', {bubbles: true}));''
      then d\<lparr>w_events := w_events d @ [''change event'']\<rparr>
      else d)"

text \<open>
  An element below the fold: a native click, clear or keystroke works only once the page
  was scrolled. Scripts run, and a pause is recorded.
\<close>

definition offscreen :: "world selenium" where
  "offscreen = idle
     \<lparr> execute_script := (\<lambda>h script args d. (Inr JsNull, run_script script args d)),
       click := (\<lambda>e d. if w_scrolled d then (Inr (), d\<lparr>w_events := w_events d @ [''click'']\<rparr>)
                       else (Inl (WebDriverException ''element not interactable''), d)),
       clear := (\<lambda>e d. if w_scrolled d then (Inr (), d\<lparr>w_events := w_events d @ [''clear'']\<rparr>)
                       else (Inl (WebDriverException ''element not interactable''), d)),
       send_keys := (\<lambda>e k d. if w_scrolled d then (Inr (), d\<lparr>w_events := w_events d @ [''type'']\<rparr>)
                       else (Inl (WebDriverException ''element not interactable''), d)),
       time_sleep := (\<lambda>n d. d\<lparr>w_events := w_events d @ [''pause'']\<rparr>) \<rparr>"

text \<open>An element under an overlay: its native events are blocked, wherever it is scrolled.\<close>

definition covered :: "world selenium" where
  "covered = offscreen
     \<lparr> click := (\<lambda>e. throw (WebDriverException ''element click intercepted'')),
       clear := (\<lambda>e. throw (WebDriverException ''element not interactable'')),
       send_keys := (\<lambda>e k. throw (WebDriverException ''element not interactable'')) \<rparr>"

text \<open>A page on which scripts fail as well.\<close>

definition dead :: "world selenium" where
  "dead = covered
     \<lparr> execute_script := (\<lambda>h script args. throw (WebDriverException ''javascript error'')) \<rparr>"

text \<open>A session that is gone (the browser was closed): every navigation raises.\<close>

definition gone :: "world selenium" where
  "gone = idle \<lparr> drv_get := (\<lambda>h u. throw (WebDriverException ''invalid session id'')) \<rparr>"

definition shaarli :: client where
  "shaarli = init ''http://shaarli.example/'' True 10"

definition logged_in :: client where
  "logged_in = shaarli\<lparr>driver := Some 0, is_logged_in := True\<rparr>"

text \<open>
  A page whose fifth username rule (\<^verbatim>\<open>By.ID, "username"\<close>) is the first with a match,
  and whose ninth rule matches as well, in another order.
\<close>

definition two_fields :: "world selenium" where
  "two_fields = idle
     \<lparr> find_elements := (\<lambda>h by v. ret
         (if (by, v) = (ID, ''username'') then [11, 12]
          else if (by, v) = (CSS_SELECTOR, ''input[type='text']'') then [12, 11]
          else [])) \<rparr>"

text \<open>
  A login page with a field named \<^verbatim>\<open>login\<close> (element 1), one named \<^verbatim>\<open>password\<close>
  (element 2) and a submit input (element 3). A click on the submit input leads to the
  front page, which shows no link with \<^verbatim>\<open>Logout\<close>, \<^verbatim>\<open>Tools\<close> or \<^verbatim>\<open>Shaare\<close>
  in its text.
\<close>

definition login_page :: "world selenium" where
  "login_page = idle
     \<lparr> find_elements := (\<lambda>h by v. ret
         (if (by, v) = (NAME, ''login'') then [1]
          else if (by, v) = (NAME, ''password'') then [2]
          else if (by, v) = (CSS_SELECTOR, ''input[type='submit']'') then [3]
          else if (by, v) = (TAG_NAME, ''input'') then [1, 2, 3]
          else [])),
       find_element := (\<lambda>h by v.
         if (by, v) = (TAG_NAME, ''input'') then ret 1 else throw NoSuchElementException),
       click := (\<lambda>e d. (Inr (), if e = 3 then d\<lparr>w_url := ''http://shaarli.example/''\<rparr> else d)) \<rparr>"

text \<open>
  The two-step form: a field named \<^verbatim>\<open>post\<close> (element 1), a submit input (element 2)
  and a field named \<^verbatim>\<open>lf_title\<close> (element 3). The first click on the submit input
  leads from the add page to the edit page, the second one to the front page.
\<close>

definition bookmark_form :: "world selenium" where
  "bookmark_form = idle
     \<lparr> find_elements := (\<lambda>h by v. ret
         (if (by, v) = (NAME, ''post'') then [1]
          else if (by, v) = (CSS_SELECTOR, ''input[type='submit']'') then [2]
          else if (by, v) = (NAME, ''lf_title'') then [3]
          else [])),
       click := (\<lambda>e d. (Inr (),
         if e = 2
         then (if w_url d = ''http://shaarli.example/admin/add-shaare''
               then d\<lparr>w_url := ''http://shaarli.example/admin/shaare''\<rparr>
               else d\<lparr>w_url := ''http://shaarli.example/''\<rparr>)
         else d)) \<rparr>"


text \<open>
  A front page that lists its entries as anchors of class \<^verbatim>\<open>link\<close>: element 5 is
  \<^verbatim>\<open><a class="link" href="http://shaarli.example/shaare/k3Zq">Note to self</a>\<close>, a
  note kept on the site itself.
\<close>

definition front_page :: "world selenium" where
  "front_page = idle
     \<lparr> find_elements := (\<lambda>h by v. ret (if (by, v) = (CSS_SELECTOR, ''.link'') then [5] else [])),
       get_attribute := (\<lambda>e a. ret
         (if e = 5 \<and> a = ''href'' then Some ''http://shaarli.example/shaare/k3Zq'' else None)),
       tag_name := (\<lambda>e. ret (if e = 5 then ''a'' else ''div'')),
       el_text := (\<lambda>e. ret (if e = 5 then ''Note to self'' else [])) \<rparr>"

section \<open>Properties\<close>

subsection \<open>Running an operation\<close>

lemma bnd_ret [simp]: "bnd (ret x) f = f x"
  by (simp add: bnd_def ret_def)

lemma bnd_assoc: "bnd (bnd m f) g = bnd m (\<lambda>x. bnd (f x) g)"
  by (auto simp: bnd_def fun_eq_iff split: prod.splits sum.splits)

lemma bnd_apply:
  "bnd m f d = (case m d of (Inl e, d') \<Rightarrow> (Inl e, d') | (Inr x, d') \<Rightarrow> f x d')"
  by (simp add: bnd_def)

lemma try_except_apply:
  "try_except m h d = (case m d of (Inl e, d') \<Rightarrow> h e d' | (Inr x, d') \<Rightarrow> (Inr x, d'))"
  by (simp add: try_except_def)

lemma ret_apply: "ret x d = (Inr x, d)"
  by (simp add: ret_def)

lemma throw_apply: "throw e d = (Inl e, d)"
  by (simp add: throw_def)

subsection \<open>Substrings\<close>

text \<open>\<open>py_in\<close> is the substring test: some prefix and some suffix surround the needle.\<close>

lemma startswith_iff: "startswith hay needle \<longleftrightarrow> (\<exists>ss. hay = needle @ ss)"
  by (induction hay needle rule: startswith.induct) auto

lemma py_in_iff: "py_in needle hay \<longleftrightarrow> (\<exists>ps ss. hay = ps @ needle @ ss)"
proof (induction hay)
  case Nil
  then show ?case by auto
next
  case (Cons c cs)
  show ?case
  proof
    assume "py_in needle (c # cs)"
    then consider "startswith (c # cs) needle" | "py_in needle cs"
      by auto
    then show "\<exists>ps ss. c # cs = ps @ needle @ ss"
    proof cases
      case 1
      then obtain ss where "c # cs = needle @ ss"
        using startswith_iff by blast
      then have "c # cs = [] @ needle @ ss" by simp
      then show ?thesis by blast
    next
      case 2
      then obtain ps ss where "cs = ps @ needle @ ss"
        using Cons.IH by blast
      then have "c # cs = (c # ps) @ needle @ ss" by simp
      then show ?thesis by blast
    qed
  next
    assume "\<exists>ps ss. c # cs = ps @ needle @ ss"
    then obtain ps ss where e: "c # cs = ps @ needle @ ss"
      by blast
    show "py_in needle (c # cs)"
    proof (cases ps)
      case Nil
      then have "startswith (c # cs) needle"
        using e startswith_iff by auto
      then show ?thesis by simp
    next
      case (Cons p ps')
      then have "cs = ps' @ needle @ ss"
        using e by simp
      then have "py_in needle cs"
        using Cons.IH by blast
      then show ?thesis by simp
    qed
  qed
qed

subsection \<open>The interaction escalator\<close>

text \<open>
  C8. Called with no element (\<^verbatim>\<open>None\<close>), \<^verbatim>\<open>try_interact_with_element\<close> returns
  \<open>False\<close> at once, for every action and text: no tactic runs, and the world is the one
  it was called in.
\<close>

theorem try_interact_none:
  "try_interact_with_element S drv None action text d = (Inr False, d)"
  by (simp add: try_interact_with_element_def ret_apply)

text \<open>
  With a click, or with \<^verbatim>\<open>send_keys\<close> and a non-empty text, each of the three
  \<^verbatim>\<open>try\<close> blocks of the source is the specification's tactic followed by
  \<^verbatim>\<open>return True\<close>.
\<close>

lemma method1_spec:
  assumes "action = ''click'' \<or> (action = ''send_keys'' \<and> text = Some t \<and> t \<noteq> [])"
  shows "method1 S el action text = bnd (spec_direct S el action t) (\<lambda>_. ret True)"
  using assms by (auto simp: method1_def native_action_def spec_direct_def bnd_assoc)

lemma method2_spec:
  assumes "action = ''click'' \<or> (action = ''send_keys'' \<and> text = Some t \<and> t \<noteq> [])"
  shows "method2 S drv el action text = bnd (spec_scrolled S drv el action t) (\<lambda>_. ret True)"
  using assms
  by (auto simp: method2_def native_action_def scroll_into_view_def sleep_def on_driver_def
        spec_scrolled_def spec_scroll_and_pause_def spec_direct_def bnd_assoc)

lemma method3_spec:
  assumes "action = ''click'' \<or> (action = ''send_keys'' \<and> text = Some t \<and> t \<noteq> [])"
  shows "method3 S drv el action text = bnd (spec_scripted S drv el action t) (\<lambda>_. ret True)"
  using assms
  by (auto simp: method3_def on_driver_def spec_scripted_def spec_run_script_def bnd_assoc)

text \<open>Neither the escalation nor the call ever answers an exception.\<close>

lemma escalate_returns: "\<exists>b d'. escalate tactics d = (Inr b, d')"
  by (induction tactics arbitrary: d) (auto split: prod.splits sum.splits)

lemma try_interact_returns:
  "\<exists>b d'. try_interact_with_element S drv element action text d = (Inr b, d')"
  by (auto simp: try_interact_with_element_def bnd_apply try_except_apply ret_apply
           split: option.splits prod.splits sum.splits)

text \<open>
  C4. For a click, and for \<^verbatim>\<open>send_keys\<close> with a non-empty text, the call is the
  escalation over the three tactics of the specification, in that order: the direct one,
  the scrolled one (the scroll script, the pause of one second, then the native action
  again) and the scripted one. The first tactic that completes makes the result
  \<open>True\<close> and leaves the world as that tactic left it (no later tactic runs); the
  exception of a tactic that raises is dropped and the next tactic starts from the world
  the failed one left; the result is \<open>False\<close> exactly when all three raised.
  \<open>escalate\<close> never answers an exception, so none reaches the caller.
\<close>

theorem try_interact_escalates:
  assumes "action = ''click'' \<or> (action = ''send_keys'' \<and> text = Some t \<and> t \<noteq> [])"
  shows "try_interact_with_element S drv (Some el) action text d =
         escalate [spec_direct S el action t, spec_scrolled S drv el action t,
                   spec_scripted S drv el action t] d"
  unfolding try_interact_with_element_def method1_spec[OF assms] method2_spec[OF assms]
    method3_spec[OF assms]
  by (simp add: bnd_apply try_except_apply ret_apply split: prod.splits sum.splits)

text \<open>
  The order of the tactics, as the events of the page record it. Below the fold the
  direct action raises and the scrolled one completes: scroll, pause, native action, and
  no script-level action. Under an overlay the native action fails twice and the scripted
  tactic completes, after the scroll and the pause of the second. Where scripts fail too,
  all three tactics raise and the call returns \<open>False\<close>.
\<close>

theorem try_interact_escalates_witness:
  "try_interact_with_element offscreen (Some 0) (Some 4) ''click'' None w0 =
     (Inr True, w0\<lparr>w_scrolled := True, w_events := [''scroll'', ''pause'', ''click'']\<rparr>) \<and>
   try_interact_with_element offscreen (Some 0) (Some 4) ''send_keys'' (Some ''secret'') w0 =
     (Inr True,
      w0\<lparr>w_scrolled := True, w_events := [''scroll'', ''pause'', ''clear'', ''type'']\<rparr>) \<and>
   try_interact_with_element covered (Some 0) (Some 4) ''click'' None w0 =
     (Inr True,
      w0\<lparr>w_scrolled := True, w_events := [''scroll'', ''pause'', ''script click'']\<rparr>) \<and>
   try_interact_with_element covered (Some 0) (Some 4) ''send_keys'' (Some ''secret'') w0 =
     (Inr True,
      w0\<lparr>w_scrolled := True,
         w_events := [''scroll'', ''pause'', ''script empty'', ''script assign'',
                      ''input event'', ''change event'']\<rparr>) \<and>
   try_interact_with_element dead (Some 0) (Some 4) ''click'' None w0 = (Inr False, w0)"
  using
    try_interact_escalates [of "''click''" None "[]" offscreen "Some 0" 4 w0]
    try_interact_escalates [of "''send_keys''" "Some ''secret''" "''secret''" offscreen "Some 0" 4 w0]
    try_interact_escalates [of "''click''" None "[]" covered "Some 0" 4 w0]
    try_interact_escalates [of "''send_keys''" "Some ''secret''" "''secret''" covered "Some 0" 4 w0]
    try_interact_escalates [of "''click''" None "[]" dead "Some 0" 4 w0]
  by (simp add: spec_direct_def spec_scrolled_def spec_scroll_and_pause_def spec_scripted_def
        spec_run_script_def run_script_def dead_def covered_def offscreen_def idle_def w0_def
        bnd_apply ret_apply throw_apply)

text \<open>
  C9 as stated fails where it says that all three tactics are no-ops: the second block
  scrolls and pauses (lines 157 and 158) before it comes to the guard on the text. Below
  the fold, a call with \<^verbatim>\<open>send_keys\<close> and the empty text returns \<open>False\<close> and
  leaves the page scrolled.
\<close>

theorem empty_text_still_scrolls:
  "try_interact_with_element offscreen (Some 0) (Some 4) ''send_keys'' (Some []) w0 =
     (Inr False, w0\<lparr>w_scrolled := True, w_events := [''scroll'', ''pause'']\<rparr>) \<and>
   w_scrolled (snd (try_interact_with_element offscreen (Some 0) (Some 4) ''send_keys'' (Some []) w0))
     \<noteq> w_scrolled w0"
  by (simp add: try_interact_with_element_def method1_def method2_def method3_def
        native_action_def scroll_into_view_def sleep_def on_driver_def run_script_def
        offscreen_def idle_def w0_def bnd_apply try_except_apply ret_apply)

text \<open>
  C9, as the code has it. With the action \<^verbatim>\<open>send_keys\<close> and a text that is
  \<^verbatim>\<open>None\<close> or empty, the call returns \<open>False\<close> for every element: the
  \<^verbatim>\<open>send_keys\<close> branch of each of the three blocks is skipped, so nothing is cleared,
  typed or assigned, and the call reports a failure even for an element one could type
  into. The first and the third block do nothing at all; of the second block the scroll
  of line 157 and the pause of line 158 still run (an exception of the scroll is dropped,
  and the pause with it), and the world the call leaves is the one they leave:
  \<open>spec_scroll_and_pause\<close> is the scroll script followed by the pause of one second.
\<close>

theorem try_interact_empty_text:
  "try_interact_with_element S drv (Some el) ''send_keys'' None d =
     (Inr False, snd (spec_scroll_and_pause S drv el d)) \<and>
   try_interact_with_element S drv (Some el) ''send_keys'' (Some []) d =
     (Inr False, snd (spec_scroll_and_pause S drv el d))"
  by (simp add: try_interact_with_element_def method1_def method2_def method3_def native_action_def
        scroll_into_view_def on_driver_def spec_scroll_and_pause_def
        bnd_apply try_except_apply ret_apply sleep_def split: prod.splits sum.splits)

subsection \<open>The resolver\<close>

lemma first_match_Cons:
  "first_match S (Some h) (rule # rules) d =
     (case find_elements S h (fst rule) (snd rule) d of
        (Inr [], d') \<Rightarrow> first_match S (Some h) rules d'
      | (Inr (e # es), d') \<Rightarrow> (Inr (Some e), d')
      | (Inl ex, d') \<Rightarrow> first_match S (Some h) rules d')"
  by (cases rule)
     (simp add: first_match_def on_driver_def bnd_apply try_except_apply ret_apply
           split: prod.splits sum.splits list.splits)

lemma first_match_all_miss:
  "all_miss S h rules d = Some d1 \<Longrightarrow>
   first_match S (Some h) (rules @ rest) d = first_match S (Some h) rest d1"
proof (induction rules arbitrary: d)
  case Nil
  then show ?case by simp
next
  case (Cons rule rules)
  then show ?case
    by (auto simp: first_match_Cons split: prod.splits sum.splits list.splits)
qed

text \<open>
  C3. For every list of rules and every state of the document: when the rules before
  index \<open>i\<close> all match nothing (\<open>all_miss\<close>, which leaves the state \<open>d1\<close>) and the
  query of rule \<open>i\<close> then answers the non-empty list \<open>e # es\<close>, the resolver returns
  \<open>e\<close>, the first element of that answer. The state it returns is \<open>d2\<close>, the one the
  query of rule \<open>i\<close> left: no rule after \<open>i\<close> is queried, and \<open>es\<close> plays no part.
\<close>

theorem first_match_priority:
  assumes "i < length plan"
    and "all_miss S h (take i plan) d = Some d1"
    and "find_elements S h (fst (plan ! i)) (snd (plan ! i)) d1 = (Inr (e # es), d2)"
  shows "first_match S (Some h) plan d = (Inr (Some e), d2)"
proof -
  have "plan = take i plan @ plan ! i # drop (Suc i) plan"
    using assms(1) by (simp add: id_take_nth_drop)
  then have "first_match S (Some h) plan d =
             first_match S (Some h) (plan ! i # drop (Suc i) plan) d1"
    using first_match_all_miss [OF assms(2)] by metis
  then show ?thesis
    using assms(3) by (simp add: first_match_Cons)
qed

text \<open>
  On \<open>two_fields\<close> the first four username rules match nothing, the fifth answers the
  elements 11 and 12, and a later rule would have answered 12 first.
\<close>

theorem first_match_priority_witness:
  "first_match two_fields (Some 0) username_selectors w0 = (Inr (Some 11), w0)"
proof -
  have 1: "4 < length username_selectors"
    by (simp add: username_selectors_def)
  have 2: "all_miss two_fields 0 (take 4 username_selectors) w0 = Some w0"
    by (simp add: username_selectors_def two_fields_def idle_def ret_apply)
  have 3: "find_elements two_fields 0 (fst (username_selectors ! 4)) (snd (username_selectors ! 4)) w0
           = (Inr (11 # [12]), w0)"
    by (simp add: username_selectors_def two_fields_def idle_def ret_apply)
  show ?thesis
    using first_match_priority [OF 1 2 3] .
qed


subsection \<open>The verdicts of \<^verbatim>\<open>login\<close> and \<^verbatim>\<open>add_url\<close>\<close>

lemma is_logged_in_check_marker:
  "fst (is_logged_in_check S (Some h) d) = Inr (marker_found S h d)"
  by (simp add: is_logged_in_check_def marker_found_def on_driver_def bnd_apply try_except_apply
        ret_apply split: prod.splits sum.splits)

text \<open>
  C2. Let the form be submitted (\<open>login_steps\<close> reaches the settle delay, in the state
  \<open>d1\<close>) and let \<open>cur\<close> be the current URL read after the delay of three seconds.
  Then \<^verbatim>\<open>login\<close> returns \<open>True\<close> if and only if \<open>cur\<close> does not contain
  \<^verbatim>\<open>login\<close> or a post-login marker is found; otherwise it returns \<open>False\<close>. When
  \<open>cur\<close> has no \<^verbatim>\<open>login\<close> in it, the call succeeds whatever the markers are: it sets
  the flag and returns in the state \<open>d2\<close> the read of the URL left, without looking for
  a marker at all.
\<close>

theorem login_verdict_iff:
  assumes "driver self = Some h"
    and "login_steps S self username password d = (Inr True, d1)"
    and "current_url S h (time_sleep S 3 d1) = (Inr cur, d2)"
  shows "fst (login S self username password d) =
           Inr (\<not> py_in ''login'' cur \<or> marker_found S h d2) \<and>
         (\<not> py_in ''login'' cur \<longrightarrow>
            login S self username password d = (Inr True, self\<lparr>is_logged_in := True\<rparr>, d2))"
proof -
  have v: "login_verdict S (Some h) d1 =
           (if \<not> py_in ''login'' cur then (Inr True, d2)
            else (Inr (marker_found S h d2), snd (is_logged_in_check S (Some h) d2)))"
    using assms(3) is_logged_in_check_marker [of S h d2]
    by (cases "is_logged_in_check S (Some h) d2")
       (auto simp: login_verdict_def sleep_def on_driver_def bnd_apply ret_apply)
  show ?thesis
    using assms(1,2) v
    by (auto simp: login_def login_body_def bnd_apply try_except_apply ret_apply
             split: prod.splits sum.splits bool.splits)
qed

lemma login_page_steps:
  "login_steps login_page (shaarli\<lparr>driver := Some 0\<rparr>) ''admin'' ''secret'' w0 =
     (Inr True, w0\<lparr>w_url := ''http://shaarli.example/''\<rparr>)"
  by (simp add: login_steps_def wait_for_page_ready_def check_for_iframes_def debug_page_elements_def
        find_username_field_def find_password_field_def submit_login_form_def first_match_def
        try_interact_with_element_def method1_def method2_def method3_def native_action_def
        username_selectors_def password_selectors_def submit_selectors_def
        for_each_def on_driver_def sleep_def try_except_timeout_def
        bnd_apply try_except_apply ret_apply throw_apply
        login_page_def idle_def shaarli_def init_def rstrip_slash_def w0_def Let_def)

text \<open>
  On \<open>login_page\<close> the submission leads to a front page whose URL has no \<^verbatim>\<open>login\<close>
  in it and which shows none of the three markers: the login succeeds.
\<close>

theorem login_verdict_iff_witness:
  "login login_page (shaarli\<lparr>driver := Some 0\<rparr>) ''admin'' ''secret'' w0 =
     (Inr True, shaarli\<lparr>driver := Some 0, is_logged_in := True\<rparr>,
      w0\<lparr>w_url := ''http://shaarli.example/''\<rparr>) \<and>
   \<not> marker_found login_page 0 (w0\<lparr>w_url := ''http://shaarli.example/''\<rparr>)"
proof -
  have 1: "driver (shaarli\<lparr>driver := Some 0\<rparr>) = Some 0"
    by simp
  have 3: "current_url login_page 0
             (time_sleep login_page 3 (w0\<lparr>w_url := ''http://shaarli.example/''\<rparr>))
           = (Inr ''http://shaarli.example/'', w0\<lparr>w_url := ''http://shaarli.example/''\<rparr>)"
    by (simp add: login_page_def idle_def)
  have 4: "\<not> marker_found login_page 0 (w0\<lparr>w_url := ''http://shaarli.example/''\<rparr>)"
    by (simp add: marker_found_def login_page_def idle_def ret_apply)
  show ?thesis
    using login_verdict_iff [OF 1 login_page_steps 3] 4 by simp
qed

text \<open>
  C6. Let the save button be clicked (\<open>add_url_steps\<close> reaches the settle delay, in the
  state \<open>d1\<close>) and let \<open>cur\<close> be the current URL read after the delay of three
  seconds. Then \<^verbatim>\<open>add_url\<close> returns \<open>True\<close> if and only if \<open>cur\<close> contains neither
  \<^verbatim>\<open>add-shaare\<close> nor \<^verbatim>\<open>admin\<close>, and \<open>False\<close> when one of them is still there.
\<close>

theorem add_url_verdict_iff:
  assumes "driver self = Some h"
    and "is_logged_in self"
    and "add_url_steps S self u t de ta p d = (Inr True, d1)"
    and "current_url S h (time_sleep S 3 d1) = (Inr cur, d2)"
  shows "add_url S self u t de ta p d =
           (Inr (\<not> py_in ''add-shaare'' cur \<and> \<not> py_in ''admin'' cur), self, d2)"
  using assms
  by (auto simp: add_url_def add_url_body_def add_url_verdict_def sleep_def on_driver_def bnd_apply
        try_except_apply ret_apply)

lemma bookmark_form_steps:
  "add_url_steps bookmark_form logged_in ''https://example.com'' ''Example'' [] [] False w0 =
     (Inr True, w0\<lparr>w_url := ''http://shaarli.example/''\<rparr>)"
  by (simp add: add_url_steps_def wait_for_page_ready_def debug_page_elements_def first_match_def
        try_interact_with_element_def method1_def method2_def method3_def native_action_def
        url_selectors_def first_submit_selectors_def title_selectors_def save_selectors_def
        for_each_def on_driver_def sleep_def
        bnd_apply try_except_apply ret_apply throw_apply
        bookmark_form_def idle_def logged_in_def shaarli_def init_def rstrip_slash_def w0_def Let_def)

text \<open>On \<open>bookmark_form\<close> the save leads to the front page: the bookmark counts as added.\<close>

theorem add_url_verdict_iff_witness:
  "add_url bookmark_form logged_in ''https://example.com'' ''Example'' [] [] False w0 =
     (Inr True, logged_in, w0\<lparr>w_url := ''http://shaarli.example/''\<rparr>)"
proof -
  have 1: "driver logged_in = Some 0"
    by (simp add: logged_in_def)
  have 2: "is_logged_in logged_in"
    by (simp add: logged_in_def)
  have 4: "current_url bookmark_form 0
             (time_sleep bookmark_form 3 (w0\<lparr>w_url := ''http://shaarli.example/''\<rparr>))
           = (Inr ''http://shaarli.example/'', w0\<lparr>w_url := ''http://shaarli.example/''\<rparr>)"
    by (simp add: bookmark_form_def idle_def)
  show ?thesis
    using add_url_verdict_iff [OF 1 2 bookmark_form_steps 4] by simp
qed


subsection \<open>Preconditions and faults\<close>

text \<open>
  C7. A call out of sequence raises: \<^verbatim>\<open>login\<close> and \<^verbatim>\<open>add_url\<close> without a driver,
  \<^verbatim>\<open>add_url\<close> and \<^verbatim>\<open>get_links\<close> on a client whose flag \<^verbatim>\<open>is_logged_in\<close> is not
  set (only a successful login sets it) raise a \<^verbatim>\<open>RuntimeError\<close> and leave the client
  and the world untouched. With the preconditions met, each of the three operations returns
  a value: what its body returns, and \<open>False\<close> (for \<^verbatim>\<open>get_links\<close> the empty list)
  when the body raises, whatever the exception.
\<close>

theorem precondition_faults:
  "(driver self = None \<longrightarrow>
      login S self username password d =
        (Inl (RuntimeError ''WebDriver not initialized. Call start_driver() first.''), self, d)) \<and>
   (driver self = None \<longrightarrow>
      add_url S self u t de ta p d = (Inl (RuntimeError ''WebDriver not initialized''), self, d)) \<and>
   (driver self \<noteq> None \<and> \<not> is_logged_in self \<longrightarrow>
      add_url S self u t de ta p d =
        (Inl (RuntimeError ''Not logged in. Call login() first.''), self, d)) \<and>
   (\<not> is_logged_in self \<longrightarrow>
      get_links S self limit d =
        (Inl (RuntimeError ''Not logged in. Call login() first.''), self, d)) \<and>
   (driver self \<noteq> None \<longrightarrow>
      fst (login S self username password d) =
        (case fst (login_body S self username password d) of
           Inl e \<Rightarrow> Inr False | Inr b \<Rightarrow> Inr b)) \<and>
   (driver self \<noteq> None \<and> is_logged_in self \<longrightarrow>
      fst (add_url S self u t de ta p d) =
        (case fst (add_url_body S self u t de ta p d) of
           Inl e \<Rightarrow> Inr False | Inr b \<Rightarrow> Inr b)) \<and>
   (is_logged_in self \<longrightarrow>
      fst (get_links S self limit d) =
        (case fst (get_links_body S self limit d) of
           Inl e \<Rightarrow> Inr [] | Inr links \<Rightarrow> Inr links))"
proof -
  have l: "driver self \<noteq> None \<Longrightarrow>
      fst (login S self username password d) =
        (case fst (login_body S self username password d) of
           Inl e \<Rightarrow> Inr False | Inr b \<Rightarrow> Inr b)"
    by (auto simp: login_def try_except_apply ret_apply split: prod.splits sum.splits bool.splits)
  have a: "driver self \<noteq> None \<Longrightarrow> is_logged_in self \<Longrightarrow>
      fst (add_url S self u t de ta p d) =
        (case fst (add_url_body S self u t de ta p d) of
           Inl e \<Rightarrow> Inr False | Inr b \<Rightarrow> Inr b)"
    by (auto simp: add_url_def try_except_apply ret_apply split: prod.splits sum.splits)
  have g: "is_logged_in self \<Longrightarrow>
      fst (get_links S self limit d) =
        (case fst (get_links_body S self limit d) of
           Inl e \<Rightarrow> Inr [] | Inr links \<Rightarrow> Inr links)"
    by (auto simp: get_links_def try_except_apply ret_apply split: prod.splits sum.splits)
  show ?thesis
    using l a g by (simp add: login_def add_url_def get_links_def)
qed

lemma gone_login_body:
  "fst (login_body gone logged_in ''admin'' ''secret'' w0) =
     Inl (WebDriverException ''invalid session id'')"
  by (simp add: login_body_def login_steps_def on_driver_def bnd_apply throw_apply
        gone_def idle_def logged_in_def Let_def)

lemma gone_add_url_body:
  "fst (add_url_body gone logged_in ''https://example.com'' [] [] [] False w0) =
     Inl (WebDriverException ''invalid session id'')"
  by (simp add: add_url_body_def add_url_steps_def on_driver_def bnd_apply throw_apply
        gone_def idle_def logged_in_def Let_def)

lemma gone_get_links_body:
  "fst (get_links_body gone logged_in 10 w0) = Inl (WebDriverException ''invalid session id'')"
  by (simp add: get_links_body_def on_driver_def bnd_apply throw_apply
        gone_def idle_def logged_in_def Let_def)

text \<open>
  The fresh client \<open>shaarli\<close> has no driver and is not logged in: its calls raise. On
  a session that is gone the navigation of each body raises, and the three operations
  return \<open>False\<close>, \<open>False\<close> and the empty list.
\<close>

theorem precondition_faults_witness:
  "fst (login idle shaarli ''admin'' ''secret'' w0) =
     Inl (RuntimeError ''WebDriver not initialized. Call start_driver() first.'') \<and>
   fst (add_url idle shaarli ''https://example.com'' [] [] [] False w0) =
     Inl (RuntimeError ''WebDriver not initialized'') \<and>
   fst (add_url idle (shaarli\<lparr>driver := Some 0\<rparr>) ''https://example.com'' [] [] [] False w0) =
     Inl (RuntimeError ''Not logged in. Call login() first.'') \<and>
   fst (get_links idle shaarli 10 w0) = Inl (RuntimeError ''Not logged in. Call login() first.'') \<and>
   fst (login gone logged_in ''admin'' ''secret'' w0) = Inr False \<and>
   fst (add_url gone logged_in ''https://example.com'' [] [] [] False w0) = Inr False \<and>
   fst (get_links gone logged_in 10 w0) = Inr []"
  using
    precondition_faults [of shaarli idle "''admin''" "''secret''" w0
      "''https://example.com''" "[]" "[]" "[]" False 10]
    precondition_faults [of "shaarli\<lparr>driver := Some 0\<rparr>" idle "''admin''" "''secret''" w0
      "''https://example.com''" "[]" "[]" "[]" False 10]
    precondition_faults [of logged_in gone "''admin''" "''secret''" w0
      "''https://example.com''" "[]" "[]" "[]" False 10]
    gone_login_body gone_add_url_body gone_get_links_body
  by (simp add: shaarli_def init_def logged_in_def)


subsection \<open>The flag \<^verbatim>\<open>is_logged_in\<close>\<close>

lemma step_flag:
  "is_logged_in (fst (step S c (self, d))) =
     (is_logged_in self \<or>
      (\<exists>username password. c = Login username password \<and>
         fst (login S self username password d) = Inr True))"
  by (cases c)
     (auto simp: start_driver_def close_def test_connectivity_def login_def add_url_def
        get_links_def split: prod.splits sum.splits bool.splits option.splits if_splits)

lemma step_driver:
  "driver self \<noteq> None \<Longrightarrow> driver (fst (step S c (self, d))) \<noteq> None"
  by (cases c)
     (auto simp: start_driver_def close_def test_connectivity_def login_def add_url_def
        get_links_def split: prod.splits sum.splits bool.splits option.splits if_splits)

lemma run_flag:
  "is_logged_in (fst st) \<Longrightarrow> is_logged_in (fst (run S cs st))"
proof (induction cs arbitrary: st)
  case Nil
  then show ?case by simp
next
  case (Cons c cs)
  obtain self d where st: "st = (self, d)"
    by (cases st)
  have "is_logged_in (fst (step S c st))"
    using Cons.prems st step_flag [of S c self d] by simp
  then show ?case
    using Cons.IH by simp
qed

lemma run_driver:
  "driver (fst st) \<noteq> None \<Longrightarrow> driver (fst (run S cs st)) \<noteq> None"
proof (induction cs arbitrary: st)
  case Nil
  then show ?case by simp
next
  case (Cons c cs)
  obtain self d where st: "st = (self, d)"
    by (cases st)
  have "driver (fst (step S c st)) \<noteq> None"
    using Cons.prems st step_driver [of self S c d] by simp
  then show ?case
    using Cons.IH by simp
qed

text \<open>
  C10. One call changes the flag \<^verbatim>\<open>is_logged_in\<close> only from unset to set, and only
  when it is a \<^verbatim>\<open>login\<close> that returns \<open>True\<close>: after every other call, \<^verbatim>\<open>close\<close>
  and a failed \<^verbatim>\<open>login\<close> among them, the flag is what it was. So a flag that is set
  stays set over every sequence of calls, and after such a sequence \<^verbatim>\<open>get_links\<close>
  returns a list and \<^verbatim>\<open>add_url\<close> (whose other check, the driver, no call unsets
  either) returns a truth value: neither raises its precondition fault.
\<close>

theorem is_logged_in_monotone:
  "is_logged_in (fst (step S c (self, d))) =
     (is_logged_in self \<or>
      (\<exists>username password. c = Login username password \<and>
         fst (login S self username password d) = Inr True)) \<and>
   (is_logged_in self \<longrightarrow> is_logged_in (fst (run S cs (self, d)))) \<and>
   (is_logged_in self \<longrightarrow>
      (\<exists>links. fst (get_links S (fst (run S cs (self, d))) limit (snd (run S cs (self, d)))) =
         Inr links)) \<and>
   (is_logged_in self \<and> driver self \<noteq> None \<longrightarrow>
      (\<exists>b. fst (add_url S (fst (run S cs (self, d))) u t de ta p (snd (run S cs (self, d)))) =
         Inr b))"
proof -
  have g: "\<And>c' d'. is_logged_in c' \<Longrightarrow> \<exists>links. fst (get_links S c' limit d') = Inr links"
    by (auto simp: get_links_def try_except_apply ret_apply split: prod.splits sum.splits)
  have a: "\<And>c' d'. is_logged_in c' \<Longrightarrow> driver c' \<noteq> None \<Longrightarrow>
             \<exists>b. fst (add_url S c' u t de ta p d') = Inr b"
    by (auto simp: add_url_def try_except_apply ret_apply split: prod.splits sum.splits)
  show ?thesis
    using step_flag [of S c self d] run_flag [of "(self, d)" S cs] run_driver [of "(self, d)" S cs]
      g [of "fst (run S cs (self, d))" "snd (run S cs (self, d))"]
      a [of "fst (run S cs (self, d))" "snd (run S cs (self, d))"]
    by simp
qed

text \<open>
  A client that is logged in closes its browser, fails to log in again on the session
  that is gone, and goes on: the flag is still set.
\<close>

theorem is_logged_in_monotone_witness:
  "is_logged_in (fst (run gone [Close, Login ''admin'' ''secret'', Test_connectivity, Start_driver]
                        (logged_in, w0))) \<and>
   fst (login gone logged_in ''admin'' ''secret'' w0) = Inr False"
proof -
  have 1: "is_logged_in logged_in"
    by (simp add: logged_in_def)
  have 2: "fst (login gone logged_in ''admin'' ''secret'' w0) = Inr False"
    by (simp add: login_def login_body_def login_steps_def on_driver_def bnd_apply throw_apply
          try_except_apply ret_apply gone_def idle_def logged_in_def Let_def)
  show ?thesis
    using is_logged_in_monotone
      [of gone "Close" logged_in w0
        "[Close, Login ''admin'' ''secret'', Test_connectivity, Start_driver]"] 1 2
    by simp
qed


subsection \<open>The search in the iframes\<close>





















subsection \<open>The records of \<^verbatim>\<open>get_links\<close>\<close>

text \<open>
  C1 does not hold of the code. The candidates of the first approach (the class
  selectors of line 784) are taken as they are, and a candidate that is itself an anchor
  gives its \<^verbatim>\<open>href\<close> to the record without the test for an external link that the
  other three paths apply (lines 815, 848 and 895). On \<open>front_page\<close>, whose entries
  are anchors of class \<^verbatim>\<open>link\<close>, \<^verbatim>\<open>get_links\<close> returns a record whose url
  contains the base URL.
\<close>

theorem get_links_emits_site_link:
  "get_links front_page logged_in 10 w0 =
     (Inr [\<lparr> url = Some ''http://shaarli.example/shaare/k3Zq'', title = ''Note to self'',
             description = [], tags = [] \<rparr>],
      logged_in, w0\<lparr>w_url := ''http://shaarli.example''\<rparr>) \<and>
   base_url logged_in = ''http://shaarli.example'' \<and>
   py_in (base_url logged_in) ''http://shaarli.example/shaare/k3Zq''"
  by (simp add: get_links_def get_links_body_def wait_for_page_ready_def debug_page_elements_def
        links_by_selector_def parse_link_element_def title_of_def find_description_def
        find_tags_def modern_selectors_def slice_to_def strip_def is_space_def
        for_each_def on_driver_def sleep_def
        bnd_apply try_except_apply ret_apply throw_apply
        front_page_def idle_def logged_in_def shaarli_def init_def rstrip_slash_def w0_def Let_def)

text \<open>
  What does hold on every path, whatever the page and the driver do: a record that
  \<^verbatim>\<open>get_links\<close> returns has a url that is a non-empty string.
\<close>

lemma parse_link_element_url:
  "parse_link_element S base e d = (Inr rs, d') \<Longrightarrow> \<forall>r\<in>set rs. truthy (url r)"
  by (auto simp: parse_link_element_def bnd_apply try_except_apply ret_apply
           split: prod.splits sum.splits option.splits if_splits)

lemma map_m_parse_link_element_url:
  "map_m (parse_link_element S base) es d = (Inr rss, d') \<Longrightarrow>
   \<forall>rs\<in>set rss. \<forall>r\<in>set rs. truthy (url r)"
proof (induction es arbitrary: d rss d')
  case Nil
  then show ?case by simp
next
  case (Cons e es)
  then show ?case
    using parse_link_element_url [of S base e]
    by (auto split: prod.splits sum.splits)
qed

lemma get_links_urls_not_empty:
  assumes "get_links S self limit d = (Inr links, self', d')"
  shows "\<forall>r\<in>set links. \<exists>u. url r = Some u \<and> u \<noteq> []"
proof -
  have t: "truthy x \<Longrightarrow> \<exists>u. x = Some u \<and> u \<noteq> []" for x
    by (cases x) simp_all
  have "\<forall>r\<in>set links. truthy (url r)"
    using assms map_m_parse_link_element_url [of S "base_url self"]
    by (auto simp: get_links_def get_links_body_def bnd_apply try_except_apply ret_apply Let_def
             split: prod.splits sum.splits if_splits)
  then show ?thesis
    using t by blast
qed


end
